theory Spec2Isabelle
  imports Main "HOL-Library.Log_Nat" "HOL-Library.Sublist"
begin

section \<open>Strings\<close>

text \<open>
  Python's \<open>str\<close> is modelled by \<open>string\<close>. \<open>lower\<close> is \<open>str.lower\<close> on ASCII text:
  the letters A to Z are mapped to a to z and every other character is kept. (For code
  points beyond ASCII Python follows the Unicode case tables; no general statement below
  depends on how \<open>lower\<close> treats them.)
\<close>

definition char_lower :: "char \<Rightarrow> char" where
  "char_lower c =
     (let n = (of_char c :: nat) in if 65 \<le> n \<and> n \<le> 90 then char_of (n + 32) else c)"

definition lower :: "string \<Rightarrow> string" where
  "lower s = map char_lower s"

text \<open>\<open>str_in term text\<close> is Python's \<open>term in text\<close> on strings: substring presence.\<close>

fun str_in :: "string \<Rightarrow> string \<Rightarrow> bool" where
  "str_in term [] = (term = [])"
| "str_in term (c # cs) = (prefix term (c # cs) \<or> str_in term cs)"

text \<open>\<open>str(n)\<close> and \<open>f"{n}"\<close> for an integer: decimal digits, with a minus sign.\<close>

definition digit_char :: "nat \<Rightarrow> char" where
  "digit_char d = char_of (48 + d)"

fun show_nat :: "nat \<Rightarrow> string" where
  "show_nat n = (if n < 10 then [digit_char n] else show_nat (n div 10) @ [digit_char (n mod 10)])"

definition show_int :: "int \<Rightarrow> string" where
  "show_int i = (if i < 0 then CHR ''-'' # show_nat (nat (- i)) else show_nat (nat i))"

text \<open>\<open>s.split(sep)\<close> for a separator of one character, and \<open>sep.join(lines)\<close>.\<close>

fun split_on :: "char \<Rightarrow> string \<Rightarrow> string list" where
  "split_on sep [] = [[]]"
| "split_on sep (c # cs) =
     (if c = sep then [] # split_on sep cs
      else (case split_on sep cs of [] \<Rightarrow> [[c]] | w # ws \<Rightarrow> (c # w) # ws))"

fun join :: "string \<Rightarrow> string list \<Rightarrow> string" where
  "join sep [] = []"
| "join sep [x] = x"
| "join sep (x # y # ys) = x @ sep @ join sep (y # ys)"

section \<open>Floating point\<close>

text \<open>
  \<open>score_post\<close> computes its total in Python floats (IEEE 754 binary64) and rounds the
  result with \<open>round\<close>. A finite double is modelled by a pair \<open>(m, e)\<close> of integers that
  denotes \<open>m * 2 ^ e\<close>. Every operation computes the exact result and rounds it to 53
  significant bits, to nearest and ties to even, as the hardware does. Overflow and
  subnormal numbers are not modelled: every value that arises below is zero or lies between
  \<open>0.15\<close> and \<open>101\<close>.
\<close>

type_synonym double = "int \<times> int"

text \<open>\<open>round_shift m k\<close> is \<open>m / 2 ^ k\<close> rounded to the nearest integer, ties to even.\<close>

definition round_shift :: "int \<Rightarrow> nat \<Rightarrow> int" where
  "round_shift m k =
     (let q = m div 2 ^ k; r = m mod 2 ^ k; h = 2 ^ (k - 1)
      in if k = 0 then m
         else if r < h then q else if h < r then q + 1 else if even q then q else q + 1)"

definition round_to_53 :: "double \<Rightarrow> double" where
  "round_to_53 x =
     (case x of (m, e) \<Rightarrow>
        let k = bitlen \<bar>m\<bar> - 53
        in if k \<le> 0 then (m, e) else (round_shift m (nat k), e + k))"

definition float_mul :: "double \<Rightarrow> double \<Rightarrow> double" where
  "float_mul x y = (case (x, y) of ((m1, e1), (m2, e2)) \<Rightarrow> round_to_53 (m1 * m2, e1 + e2))"

definition float_add :: "double \<Rightarrow> double \<Rightarrow> double" where
  "float_add x y =
     (case (x, y) of ((m1, e1), (m2, e2)) \<Rightarrow>
        let e = min e1 e2
        in round_to_53 (m1 * 2 ^ nat (e1 - e) + m2 * 2 ^ nat (e2 - e), e))"

text \<open>The conversion of an \<open>int\<close> operand in \<open>int * float\<close>.\<close>

definition float_of_int :: "int \<Rightarrow> double" where
  "float_of_int n = round_to_53 (n, 0)"

text \<open>\<open>round(x)\<close> of a float without \<open>ndigits\<close>: the nearest \<open>int\<close>, ties to even.\<close>

definition py_round :: "double \<Rightarrow> int" where
  "py_round x =
     (case x of (m, e) \<Rightarrow> if 0 \<le> e then m * 2 ^ nat e else round_shift m (nat (- e)))"

text \<open>The rational number that a double denotes.\<close>

definition dval :: "double \<Rightarrow> rat" where
  "dval x = (case x of (m, e) \<Rightarrow> of_int m * 2 powi e)"

text \<open>
  The literals \<open>0.30\<close>, \<open>0.25\<close> and \<open>0.15\<close> of the \<open>weights\<close> dictionary denote the
  doubles nearest to them: \<open>0x1.3333333333333p-2\<close>, \<open>0x1p-2\<close> and \<open>0x1.3333333333333p-3\<close>
  (lemma \<open>weights_nearest\<close>).
\<close>

definition weight_icp_match :: double where
  "weight_icp_match = (5404319552844595, - 54)"

definition weight_topic_relevance :: double where
  "weight_topic_relevance = (1, - 2)"

definition weight_reach_potential :: double where
  "weight_reach_potential = (5404319552844595, - 55)"

definition weight_timing :: double where
  "weight_timing = (5404319552844595, - 55)"

definition weight_conversation_stage :: double where
  "weight_conversation_stage = (5404319552844595, - 55)"

section \<open>Data model\<close>

datatype platform = Bluesky | YouTube | Twitter

text \<open>
  The dictionary that \<open>extract_bluesky_post\<close> builds, the same with the key
  \<open>matched_query\<close> that the fetch loop adds, and the same with the keys \<open>score\<close> and
  \<open>priority\<close> that \<open>main\<close> adds. The key \<open>text\<close> is the field \<open>post_text\<close>.
\<close>

record extracted_post =
  platform :: platform
  post_id :: string
  url :: string
  author_handle :: string
  author_name :: string
  post_text :: string
  created_at :: string
  likes :: int
  replies :: int
  reposts :: int
  engagement_total :: int

record post = extracted_post +
  matched_query :: string

record score_breakdown =
  total :: int
  icp_match :: int
  topic_relevance :: int
  reach_potential :: int
  timing :: int
  conversation_stage :: int

datatype priority = Low | Medium | High

record scored_post = post +
  score :: score_breakdown
  priority :: priority

section \<open>Scoring\<close>

definition high_value_terms :: "string list" where
  "high_value_terms =
     [''own my data'', ''data sovereignty'', ''self-sovereign'', ''privacy by design'',
      ''decentralized'', ''peer-to-peer'', ''no single point of failure'', ''big tech'',
      ''walled gardens'', ''surveillance capitalism'', ''self-hosting'', ''homelab'',
      ''cypherpunk'', ''open web'', ''the web we were promised'', ''digital rights'',
      ''data ownership'']"

definition question_signals :: "string list" where
  "question_signals =
     [''is there an alternative'', ''looking for'', ''anyone know'',
      [CHR ''w'', CHR ''h'', CHR ''a'', CHR ''t'', CHR 0x27, CHR ''s'', CHR '' '',
       CHR ''a'', CHR ''c'', CHR ''t'', CHR ''u'', CHR ''a'', CHR ''l'', CHR ''l'', CHR ''y''],
      ''recommendations for'', ''trying to find'', ''frustrated with'', ''tired of'',
      ''concerned about'', ''worried about'']"

definition low_value_terms :: "string list" where
  "low_value_terms =
     [''token price'', ''to the moon'', ''nft'', ''airdrop'', ''presale'',
      ''enterprise solution'', ''b2b'', ''roi'', ''kpi'']"

definition direct_relevance :: "string list" where
  "direct_relevance =
     [''decentralized storage'', ''encrypted storage'', ''private storage'', ''data privacy'',
      ''end-to-end encryption'', ''self-encrypting'', ''no servers'', ''serverless'',
      ''permanent storage'', ''censorship resistant'']"

definition adjacent_topics :: "string list" where
  "adjacent_topics =
     [''ipfs'', ''filecoin'', ''storj'', ''sia'', ''nextcloud'', ''syncthing'', ''proton'',
      ''signal'', ''cloud storage'', ''google drive'', ''dropbox'', ''aws'', ''azure'',
      ''cloud costs'']"

text \<open>\<open>sum(1 for term in terms if term in text)\<close>\<close>

definition count_matches :: "string list \<Rightarrow> string \<Rightarrow> int" where
  "count_matches terms text = sum_list (map (\<lambda>term. 1) (filter (\<lambda>term. str_in term text) terms))"

text \<open>\<open>any(q in text for q in markers)\<close>\<close>

definition any_in :: "string list \<Rightarrow> string \<Rightarrow> bool" where
  "any_in markers text = list_ex (\<lambda>q. str_in q text) markers"

text \<open>The five dimensions, each a block of \<open>score_post\<close>, in the order of the source.\<close>

definition icp_score :: "string \<Rightarrow> int" where
  "icp_score text =
     (let high_matches = count_matches high_value_terms text;
          question_matches = count_matches question_signals text;
          low_matches = count_matches low_value_terms text;
          s = min 100 (high_matches * 20 + question_matches * 25);
          s = max 0 (s - low_matches * 30)
      in if s = 0 then 30 else s)"

definition topic_score :: "string \<Rightarrow> int" where
  "topic_score text =
     (let direct_matches = count_matches direct_relevance text;
          adjacent_matches = count_matches adjacent_topics text;
          s = min 100 (direct_matches * 30 + adjacent_matches * 15)
      in if s = 0 then 25 else s)"

definition reach_score :: "int \<Rightarrow> int" where
  "reach_score engagement =
     (if engagement \<ge> 100 then 100
      else if engagement \<ge> 50 then 80
      else if engagement \<ge> 20 then 60
      else if engagement \<ge> 10 then 40
      else if engagement \<ge> 5 then 25
      else 10)"

definition timing_score :: int where
  "timing_score = 80"

definition stage_score :: "string \<Rightarrow> int" where
  "stage_score text =
     (if any_in [''?'', ''anyone'', ''looking for'', ''recommendations'', ''trying to''] text
      then 85
      else if any_in [''frustrated'', ''tired of'', ''hate'', ''annoyed'', ''sick of''] text
      then 75
      else if any_in [''i use'', ''switched to'', ''moved to'', ''loving''] text
      then 30
      else 50)"

text \<open>
  The weighted total before rounding: five products of an \<open>int\<close> with a float, added from
  left to right.
\<close>

definition weighted_sum :: "int \<Rightarrow> int \<Rightarrow> int \<Rightarrow> int \<Rightarrow> int \<Rightarrow> double" where
  "weighted_sum icp topic reach tim stage =
     float_add
       (float_add
          (float_add
             (float_add (float_mul (float_of_int icp) weight_icp_match)
                (float_mul (float_of_int topic) weight_topic_relevance))
             (float_mul (float_of_int reach) weight_reach_potential))
          (float_mul (float_of_int tim) weight_timing))
       (float_mul (float_of_int stage) weight_conversation_stage)"

text \<open>
  \<open>score_post\<close> reads the keys \<open>text\<close> and \<open>engagement_total\<close> (and \<open>created_at\<close>, which
  it never uses); the two context strings are parameters that the body never reads.
\<close>

definition score_post :: "'a post_scheme \<Rightarrow> string \<Rightarrow> string \<Rightarrow> score_breakdown" where
  "score_post post icp_context positioning_context =
     (let text = lower (post_text post);
          engagement = engagement_total post;
          icp = icp_score text;
          topic = topic_score text;
          reach = reach_score engagement;
          tim = timing_score;
          stage = stage_score text
      in \<lparr> total = py_round (weighted_sum icp topic reach tim stage),
           icp_match = icp,
           topic_relevance = topic,
           reach_potential = reach,
           timing = tim,
           conversation_stage = stage \<rparr>)"

text \<open>
  The configuration file, as far as the code reads it. A key that is absent is \<open>None\<close>,
  and each function supplies the default of its \<open>get\<close>.
\<close>

record config =
  scorer_thresholds_high :: "int option"
  scorer_thresholds_medium :: "int option"
  listener_bluesky_enabled :: "bool option"
  listener_bluesky_posts_per_query :: "nat option"
  listener_bluesky_language :: "string option"
  bluesky_username :: "string option"
  bluesky_password :: "string option"
  listener_youtube_enabled :: "bool option"
  listener_youtube_videos_per_query :: "nat option"
  youtube_api_key :: "string option"

definition get_priority :: "int \<Rightarrow> config \<Rightarrow> priority" where
  "get_priority s cfg =
     (let high_threshold = (case scorer_thresholds_high cfg of None \<Rightarrow> 70 | Some h \<Rightarrow> h);
          medium_threshold = (case scorer_thresholds_medium cfg of None \<Rightarrow> 50 | Some m \<Rightarrow> m)
      in if s \<ge> high_threshold then High
         else if s \<ge> medium_threshold then Medium
         else Low)"

text \<open>The ordering low < medium < high of the tiers.\<close>

fun priority_rank :: "priority \<Rightarrow> nat" where
  "priority_rank Low = 0"
| "priority_rank Medium = 1"
| "priority_rank High = 2"

definition default_config :: config where
  "default_config =
     \<lparr> scorer_thresholds_high = None, scorer_thresholds_medium = None,
       listener_bluesky_enabled = None, listener_bluesky_posts_per_query = None,
       listener_bluesky_language = None, bluesky_username = None, bluesky_password = None,
       listener_youtube_enabled = None, listener_youtube_videos_per_query = None,
       youtube_api_key = None \<rparr>"

section \<open>Console output and option defaults\<close>

text \<open>
  The functions below print progress lines. The console is modelled as the list of the
  strings passed to \<open>print\<close>, one element per call, in order. \<open>time.sleep\<close> between two
  queries has no effect on any value and is left out. An exception is modelled by its
  message, the string that \<open>{e}\<close> formats.
\<close>

definition get_or :: "'a option \<Rightarrow> 'a \<Rightarrow> 'a" where
  "get_or v d = (case v of None \<Rightarrow> d | Some x \<Rightarrow> x)"

text \<open>\<open>f"  [{i}/{len(queries)}] {query}"\<close>\<close>

definition progress_line :: "nat \<Rightarrow> nat \<Rightarrow> string \<Rightarrow> string" where
  "progress_line i n query = ''  ['' @ show_nat i @ ''/'' @ show_nat n @ ''] '' @ query"

text \<open>\<open>enumerate(queries, 1)\<close>\<close>

definition enumerate1 :: "'a list \<Rightarrow> (nat \<times> 'a) list" where
  "enumerate1 xs = zip [1 ..< Suc (length xs)] xs"

text \<open>
  The state of a fetch loop: the list \<open>all_posts\<close> (\<open>all_videos\<close> for YouTube), the set
  \<open>seen_ids\<close>, and the console.
\<close>

record 'p fetch_state =
  all_posts :: "'p list"
  seen_ids :: "string set"
  printed :: "string list"

section \<open>Bluesky\<close>

text \<open>
  A search result as the SDK hands it over: an object with attributes (\<open>PostView\<close>,
  when \<open>hasattr(post, "record")\<close>) or a plain mapping (\<open>PostDict\<close>). In both shapes a
  field is \<open>None\<close> when the attribute or key is absent.
\<close>

record bsky_fields =
  f_handle :: "string option"
  f_display_name :: "string option"
  f_uri :: "string option"
  f_text :: "string option"
  f_created_at :: "string option"
  f_like_count :: "int option"
  f_reply_count :: "int option"
  f_repost_count :: "int option"

datatype bsky_raw = PostView bsky_fields | PostDict bsky_fields

text \<open>The part of \<open>extract_bluesky_post\<close> after the two branches.\<close>

definition bluesky_post_of ::
  "string \<Rightarrow> string \<Rightarrow> string \<Rightarrow> string \<Rightarrow> int \<Rightarrow> int \<Rightarrow> int \<Rightarrow> string \<Rightarrow> extracted_post" where
  "bluesky_post_of handle uri text created likes_v replies_v reposts_v name =
     (let pid = (if uri \<noteq> [] then last (split_on CHR ''/'' uri) else []);
          web_url = (if handle \<noteq> [] \<and> pid \<noteq> []
                     then ''https://bsky.app/profile/'' @ handle @ ''/post/'' @ pid else []);
          l = (if likes_v = 0 then 0 else likes_v);
          r = (if replies_v = 0 then 0 else replies_v);
          p = (if reposts_v = 0 then 0 else reposts_v)
      in \<lparr> platform = Bluesky, post_id = pid, url = web_url, author_handle = handle,
           author_name = (if name = [] then handle else name), post_text = text,
           created_at = created, likes = l, replies = r, reposts = p,
           engagement_total = l + r + p \<rparr>)"

fun extract_bluesky_post :: "bsky_raw \<Rightarrow> extracted_post" where
  "extract_bluesky_post (PostView post) =
     (let handle = get_or (f_handle post) [];
          uri = get_or (f_uri post) [];
          text = get_or (f_text post) [];
          created = get_or (f_created_at post) [];
          likes_v = get_or (f_like_count post) 0;
          replies_v = get_or (f_reply_count post) 0;
          reposts_v = get_or (f_repost_count post) 0;
          name = get_or (f_display_name post) handle
      in bluesky_post_of handle uri text created likes_v replies_v reposts_v name)"
| "extract_bluesky_post (PostDict post) =
     (let handle = get_or (f_handle post) [];
          uri = get_or (f_uri post) [];
          text = get_or (f_text post) [];
          created = get_or (f_created_at post) [];
          likes_v = get_or (f_like_count post) 0;
          replies_v = get_or (f_reply_count post) 0;
          reposts_v = get_or (f_repost_count post) 0;
          name = get_or (f_display_name post) handle
      in bluesky_post_of handle uri text created likes_v replies_v reposts_v name)"

text \<open>\<open>extracted["matched_query"] = query\<close>\<close>

definition set_matched_query :: "extracted_post \<Rightarrow> string \<Rightarrow> post" where
  "set_matched_query e query =
     \<lparr> platform = platform e, post_id = post_id e, url = url e,
       author_handle = author_handle e, author_name = author_name e,
       post_text = post_text e, created_at = created_at e, likes = likes e,
       replies = replies e, reposts = reposts e, engagement_total = engagement_total e,
       matched_query = query \<rparr>"

text \<open>
  What lies outside the program: whether the SDK is installed, the query file, and the
  Bluesky service. \<open>bluesky_login\<close> answers a login with \<open>None\<close> or with the message of
  the exception it raises. \<open>bluesky_search_posts i q limit lang\<close> is the answer to the
  search request of the \<open>i\<close>-th query: the posts, or the message of the exception raised.
\<close>

record bluesky_env =
  atproto_available :: bool
  bluesky_queries :: "string list"
  bluesky_login :: "string \<Rightarrow> string \<Rightarrow> string option"
  bluesky_search_posts :: "nat \<Rightarrow> string \<Rightarrow> nat \<Rightarrow> string \<Rightarrow> string + bsky_raw list"

text \<open>\<open>get_bluesky_client\<close>: whether a client is returned, and what is printed.\<close>

definition get_bluesky_client :: "config \<Rightarrow> bluesky_env \<Rightarrow> bool \<times> string list" where
  "get_bluesky_client cfg env =
     (if atproto_available env = False then (False, [])
      else let username = get_or (bluesky_username cfg) [];
               password = get_or (bluesky_password cfg) []
           in if username = [] \<or> password = [] then (False, [])
              else (case bluesky_login env username password of
                      None \<Rightarrow> (True, [])
                    | Some e \<Rightarrow> (False, [''  Bluesky login failed: '' @ e])))"

text \<open>
  \<open>bluesky_search\<close> with a client: the exception of the request is caught inside, printed,
  and answered with the empty list.
\<close>

definition bluesky_search ::
  "bluesky_env \<Rightarrow> nat \<Rightarrow> string \<Rightarrow> nat \<Rightarrow> string \<Rightarrow> bsky_raw list \<times> string list" where
  "bluesky_search env i query limit lang =
     (case bluesky_search_posts env i query (min limit 100) lang of
        Inr posts \<Rightarrow> (posts, [])
      | Inl e \<Rightarrow>
          ([], [''  Error searching for '' @ [CHR 0x27] @ query @ [CHR 0x27] @ '': '' @ e]))"

definition bluesky_dedup :: "string \<Rightarrow> post fetch_state \<Rightarrow> bsky_raw \<Rightarrow> post fetch_state" where
  "bluesky_dedup query st raw =
     (let extracted = set_matched_query (extract_bluesky_post raw) query
      in if post_id extracted \<in> seen_ids st then st
         else st\<lparr> seen_ids := insert (post_id extracted) (seen_ids st),
                  all_posts := all_posts st @ [extracted] \<rparr>)"

text \<open>One round of the loop over the queries.\<close>

definition bluesky_query ::
  "bluesky_env \<Rightarrow> nat \<Rightarrow> string \<Rightarrow> nat \<Rightarrow> post fetch_state \<Rightarrow> nat \<times> string \<Rightarrow> post fetch_state" where
  "bluesky_query env posts_per_query language n st iq =
     (case iq of (i, query) \<Rightarrow>
        let st1 = st\<lparr> printed := printed st @ [progress_line i n query] \<rparr>;
            found = bluesky_search env i query posts_per_query language;
            st2 = st1\<lparr> printed := printed st1 @ snd found
                          @ [''-> '' @ show_nat (length (fst found)) @ '' posts''] \<rparr>
        in foldl (bluesky_dedup query) st2 (fst found))"

definition bluesky_loop ::
  "bluesky_env \<Rightarrow> nat \<Rightarrow> string \<Rightarrow> nat \<Rightarrow> (nat \<times> string) list \<Rightarrow> post fetch_state
     \<Rightarrow> post fetch_state" where
  "bluesky_loop env posts_per_query language n iqs st =
     foldl (bluesky_query env posts_per_query language n) st iqs"

text \<open>\<open>fetch_bluesky\<close>: the list it returns, and the console.\<close>

definition fetch_bluesky :: "config \<Rightarrow> bluesky_env \<Rightarrow> post list \<times> string list" where
  "fetch_bluesky cfg env =
     (if get_or (listener_bluesky_enabled cfg) False = False
      then ([], [''Bluesky: Disabled in config''])
      else if atproto_available env = False
      then ([], [''Bluesky: atproto SDK not installed. Run: pip3 install atproto''])
      else let queries = bluesky_queries env
      in if queries = [] then ([], [''Bluesky: No active queries''])
      else let posts_per_query = get_or (listener_bluesky_posts_per_query cfg) 25;
               language = get_or (listener_bluesky_language cfg) ''en'';
               banner = ''Bluesky: '' @ show_nat (length queries) @ '' queries, ''
                        @ show_nat posts_per_query @ '' posts each'';
               client = get_bluesky_client cfg env
      in if fst client = False
         then ([], banner # snd client @ [''Bluesky: Authentication failed''])
         else let st = bluesky_loop env posts_per_query language (length queries)
                         (enumerate1 queries)
                         \<lparr> all_posts = [], seen_ids = {}, printed = banner # snd client \<rparr>
              in (all_posts st, printed st))"

section \<open>YouTube\<close>

text \<open>
  An item of a search response: \<open>item_video_id\<close> is \<open>item["id"]["videoId"]\<close> when the key
  is present; the other fields are the keys of \<open>item["snippet"]\<close>.
\<close>

record yt_item =
  item_video_id :: "string option"
  snippet_title :: "string option"
  snippet_description :: "string option"
  snippet_channel_title :: "string option"
  snippet_channel_id :: "string option"
  snippet_published_at :: "string option"

record yt_stats =
  stat_views :: int
  stat_likes :: int
  stat_comments :: int

record youtube_video = post +
  title :: string
  description :: string
  views :: int
  channel_url :: string

text \<open>
  The YouTube Data API. \<open>youtube_search i q max_results\<close> is the outcome of the request of
  the \<open>i\<close>-th query (\<open>requests.get\<close>, \<open>raise_for_status\<close> and \<open>json\<close>, with the
  \<open>publishedAfter\<close> date the request carries): the items, or the message of the exception.
  \<open>youtube_videos i ids\<close> is the outcome of the statistics request.
\<close>

record youtube_env =
  youtube_queries :: "string list"
  youtube_search :: "nat \<Rightarrow> string \<Rightarrow> nat \<Rightarrow> string + yt_item list"
  youtube_videos :: "nat \<Rightarrow> string list \<Rightarrow> string + (string \<Rightarrow> yt_stats option)"

text \<open>\<open>fetch_youtube_stats\<close> catches every exception and answers with the empty dictionary.\<close>

definition fetch_youtube_stats ::
  "youtube_env \<Rightarrow> nat \<Rightarrow> string list \<Rightarrow> (string \<Rightarrow> yt_stats option)" where
  "fetch_youtube_stats env i video_ids =
     (case youtube_videos env i video_ids of Inl e \<Rightarrow> (\<lambda>vid. None) | Inr result \<Rightarrow> result)"

definition extract_youtube_video :: "yt_item \<Rightarrow> string \<Rightarrow> yt_stats option \<Rightarrow> youtube_video" where
  "extract_youtube_video item query stats =
     (let video_id = get_or (item_video_id item) [];
          title_v = get_or (snippet_title item) [];
          description_v = get_or (snippet_description item) [];
          channel_name = get_or (snippet_channel_title item) [];
          channel_id = get_or (snippet_channel_id item) [];
          published_at = get_or (snippet_published_at item) [];
          views_v = (case stats of None \<Rightarrow> 0 | Some s \<Rightarrow> stat_views s);
          likes_v = (case stats of None \<Rightarrow> 0 | Some s \<Rightarrow> stat_likes s);
          comments = (case stats of None \<Rightarrow> 0 | Some s \<Rightarrow> stat_comments s)
      in \<lparr> platform = YouTube, post_id = video_id,
           url = ''https://www.youtube.com/watch?v='' @ video_id,
           author_handle = channel_name, author_name = channel_name,
           post_text = (if description_v \<noteq> []
                        then ''**'' @ title_v @ ''**'' @ [CHR 0x0A, CHR 0x0A] @ description_v
                        else ''**'' @ title_v @ ''**''),
           created_at = published_at, likes = likes_v, replies = comments, reposts = 0,
           engagement_total = likes_v + comments, matched_query = query,
           title = title_v, description = description_v, views = views_v,
           channel_url = (if channel_id \<noteq> []
                          then ''https://www.youtube.com/channel/'' @ channel_id else []) \<rparr>)"

definition youtube_dedup ::
  "string \<Rightarrow> (string \<Rightarrow> yt_stats option) \<Rightarrow> youtube_video fetch_state \<Rightarrow> yt_item
     \<Rightarrow> youtube_video fetch_state" where
  "youtube_dedup query stats st item =
     (let video_id = get_or (item_video_id item) []
      in if video_id = [] \<or> video_id \<in> seen_ids st then st
         else st\<lparr> seen_ids := insert video_id (seen_ids st),
                  all_posts := all_posts st @ [extract_youtube_video item query (stats video_id)] \<rparr>)"

text \<open>
  One round of the loop: the body of the \<open>try\<close>, and the \<open>except\<close> branch that prints
  the error and continues with the next query.
\<close>

definition youtube_query ::
  "youtube_env \<Rightarrow> nat \<Rightarrow> nat \<Rightarrow> youtube_video fetch_state \<Rightarrow> nat \<times> string
     \<Rightarrow> youtube_video fetch_state" where
  "youtube_query env videos_per_query n st iq =
     (case iq of (i, query) \<Rightarrow>
        let st1 = st\<lparr> printed := printed st @ [progress_line i n query] \<rparr>
        in case youtube_search env i query (min videos_per_query 50) of
             Inl e \<Rightarrow> st1\<lparr> printed := printed st1 @ [''-> ERROR: '' @ e] \<rparr>
           | Inr items \<Rightarrow>
               let st2 = st1\<lparr> printed := printed st1
                               @ [''-> '' @ show_nat (length items) @ '' videos''] \<rparr>;
                   video_ids = map (\<lambda>item. get_or (item_video_id item) [])
                                 (filter (\<lambda>item. item_video_id item \<noteq> None) items);
                   stats = (if video_ids \<noteq> [] then fetch_youtube_stats env i video_ids
                            else (\<lambda>vid. None))
               in foldl (youtube_dedup query stats) st2 items)"

definition youtube_loop ::
  "youtube_env \<Rightarrow> nat \<Rightarrow> nat \<Rightarrow> (nat \<times> string) list \<Rightarrow> youtube_video fetch_state
     \<Rightarrow> youtube_video fetch_state" where
  "youtube_loop env videos_per_query n iqs st =
     foldl (youtube_query env videos_per_query n) st iqs"

definition fetch_youtube :: "config \<Rightarrow> youtube_env \<Rightarrow> youtube_video list \<times> string list" where
  "fetch_youtube cfg env =
     (if get_or (listener_youtube_enabled cfg) False = False
      then ([], [''YouTube: Disabled in config''])
      else if get_or (youtube_api_key cfg) [] = []
      then ([], [''YouTube: No API key in config. Get one from Google Cloud Console.''])
      else let queries = youtube_queries env
      in if queries = [] then ([], [''YouTube: No active queries in queries/youtube.yaml''])
      else let videos_per_query = get_or (listener_youtube_videos_per_query cfg) 10;
               banner = ''YouTube: '' @ show_nat (length queries) @ '' queries, ''
                        @ show_nat videos_per_query @ '' videos each'';
               st = youtube_loop env videos_per_query (length queries) (enumerate1 queries)
                      \<lparr> all_posts = [], seen_ids = {}, printed = [banner] \<rparr>
           in (all_posts st, printed st))"

section \<open>Twitter listener\<close>

text \<open>
  A tweet of the Apify dataset, as far as \<open>run_listener\<close> itself reads it (the keys
  \<open>url\<close>, \<open>likeCount\<close> and \<open>replyCount\<close>).
\<close>

record tweet =
  tweet_url :: "string option"
  tweet_like_count :: "int option"
  tweet_reply_count :: "int option"

record twitter_config =
  search_queries :: "string list option"
  tweets_per_query :: "nat option"
  min_likes :: "int option"
  min_replies :: "int option"
  twitter_language :: "string option"

text \<open>
  What lies outside: \<open>apify_run i q max_tweets lang\<close> is the outcome of running the scraper
  for the \<open>i\<close>-th query and reading its dataset (the tweets, or the message of the
  exception); \<open>write_signal q t\<close> is the outcome of \<open>tweet_to_markdown\<close> followed by
  \<open>save_signal\<close> for tweet \<open>t\<close> (the name of the file written, or the message of the
  exception); \<open>inbox_urls\<close> is what \<open>load_existing_urls\<close> finds in the inbox.
\<close>

record twitter_env =
  apify_run :: "nat \<Rightarrow> string \<Rightarrow> nat \<Rightarrow> string \<Rightarrow> string + tweet list"
  write_signal :: "string \<Rightarrow> tweet \<Rightarrow> string + string"
  inbox_urls :: "string set"

record listener_state =
  existing_urls :: "string set"
  total_found :: nat
  total_new :: nat
  total_saved :: nat
  saved_files :: "string list"
  console :: "string list"

text \<open>
  The loop over the tweets of one query. It stops at the first exception, which it hands
  to the \<open>except\<close> of the enclosing \<open>try\<close> together with the state reached so far.
\<close>

fun listener_tweets ::
  "twitter_env \<Rightarrow> int \<Rightarrow> int \<Rightarrow> string \<Rightarrow> tweet list \<Rightarrow> listener_state
     \<Rightarrow> listener_state \<times> string option" where
  "listener_tweets env min_l min_r query [] st = (st, None)"
| "listener_tweets env min_l min_r query (t # ts) st =
     (let u = get_or (tweet_url t) []
      in if u \<in> existing_urls st then listener_tweets env min_l min_r query ts st
         else if get_or (tweet_like_count t) 0 < min_l \<or> get_or (tweet_reply_count t) 0 < min_r
         then listener_tweets env min_l min_r query ts st
         else let st1 = st\<lparr> total_new := total_new st + 1 \<rparr>
              in case write_signal env query t of
                   Inl e \<Rightarrow> (st1, Some e)
                 | Inr name \<Rightarrow>
                     listener_tweets env min_l min_r query ts
                       (st1\<lparr> total_saved := total_saved st1 + 1,
                             existing_urls := insert u (existing_urls st1),
                             saved_files := saved_files st1 @ [name],
                             console := console st1 @ [''  + Saved: '' @ name] \<rparr>))"

definition listener_query ::
  "twitter_env \<Rightarrow> twitter_config \<Rightarrow> listener_state \<Rightarrow> nat \<times> string \<Rightarrow> listener_state" where
  "listener_query env cfg st iq =
     (case iq of (i, query) \<Rightarrow>
        let st1 = st\<lparr> console := console st @ [''Searching: '' @ query] \<rparr>
        in case apify_run env i query (get_or (tweets_per_query cfg) 20)
                  (get_or (twitter_language cfg) ''en'') of
             Inl e \<Rightarrow> st1\<lparr> console := console st1 @ [''  ERROR: '' @ e] \<rparr>
           | Inr tweets \<Rightarrow>
               let st2 = st1\<lparr> console := console st1
                               @ [''  Found: '' @ show_nat (length tweets) @ '' tweets''],
                             total_found := total_found st1 + length tweets \<rparr>;
                   r = listener_tweets env (get_or (min_likes cfg) 0) (get_or (min_replies cfg) 0)
                         query tweets st2
               in case snd r of
                    Some e \<Rightarrow> (fst r)\<lparr> console := console (fst r) @ [''  ERROR: '' @ e] \<rparr>
                  | None \<Rightarrow> (fst r)\<lparr> console := console (fst r) @ [[]] \<rparr>)"

definition listener_loop ::
  "twitter_env \<Rightarrow> twitter_config \<Rightarrow> (nat \<times> string) list \<Rightarrow> listener_state \<Rightarrow> listener_state" where
  "listener_loop env cfg iqs st = foldl (listener_query env cfg) st iqs"

text \<open>
  \<open>run_listener\<close> from the loop on: the state after the last query, whose \<open>total_saved\<close>
  the function returns. (The banner and the summary it prints around the loop are left
  out of \<open>console\<close>.)
\<close>

definition run_listener :: "twitter_env \<Rightarrow> twitter_config \<Rightarrow> listener_state" where
  "run_listener env cfg =
     listener_loop env cfg (enumerate1 (get_or (search_queries cfg) []))
       \<lparr> existing_urls = inbox_urls env, total_found = 0, total_new = 0, total_saved = 0,
         saved_files = [], console = [] \<rparr>"

section \<open>Daily briefing\<close>

text \<open>
  A reading of \<open>datetime.now()\<close>, and the three renderings the code takes of it:
  \<open>strftime("%Y-%b-%d")\<close>, \<open>strftime("%H%M")\<close> and \<open>isoformat()\<close>. Month names are
  those of the C locale.
\<close>

record datetime =
  dt_year :: nat
  dt_month :: nat
  dt_day :: nat
  dt_hour :: nat
  dt_minute :: nat
  dt_second :: nat
  dt_microsecond :: nat

definition zfill :: "nat \<Rightarrow> string \<Rightarrow> string" where
  "zfill w s = replicate (w - length s) CHR ''0'' @ s"

definition month_abbr :: "nat \<Rightarrow> string" where
  "month_abbr m =
     (if 1 \<le> m \<and> m \<le> 12
      then [''Jan'', ''Feb'', ''Mar'', ''Apr'', ''May'', ''Jun'',
            ''Jul'', ''Aug'', ''Sep'', ''Oct'', ''Nov'', ''Dec''] ! (m - 1)
      else [])"

definition strftime_date :: "datetime \<Rightarrow> string" where
  "strftime_date now =
     zfill 4 (show_nat (dt_year now)) @ ''-'' @ month_abbr (dt_month now) @ ''-''
     @ zfill 2 (show_nat (dt_day now))"

definition strftime_hm :: "datetime \<Rightarrow> string" where
  "strftime_hm now = zfill 2 (show_nat (dt_hour now)) @ zfill 2 (show_nat (dt_minute now))"

definition isoformat :: "datetime \<Rightarrow> string" where
  "isoformat now =
     zfill 4 (show_nat (dt_year now)) @ ''-'' @ zfill 2 (show_nat (dt_month now)) @ ''-''
     @ zfill 2 (show_nat (dt_day now)) @ ''T'' @ zfill 2 (show_nat (dt_hour now)) @ '':''
     @ zfill 2 (show_nat (dt_minute now)) @ '':'' @ zfill 2 (show_nat (dt_second now))
     @ (if dt_microsecond now = 0 then [] else ''.'' @ zfill 6 (show_nat (dt_microsecond now)))"

text \<open>The \<open>stats\<close> dictionary that \<open>main\<close> passes, as far as the briefing reads it.\<close>

record run_stats =
  platforms :: string
  queries_run :: nat
  total_fetched :: nat

text \<open>
  The slice \<open>xs[:n]\<close>: the first \<open>n\<close> elements, and for a negative \<open>n\<close> all but the last
  \<open>-n\<close> elements.
\<close>

definition py_slice_to :: "int \<Rightarrow> 'a list \<Rightarrow> 'a list" where
  "py_slice_to n xs = (if 0 \<le> n then take (nat n) xs else take (length xs - nat (- n)) xs)"

text \<open>
  \<open>sorted(scored_posts, key=lambda x: x["score"]["total"], reverse=True)\<close>: descending
  and stable, which is the stable ascending sort by the negated key.
\<close>

definition sorted_posts :: "scored_post list \<Rightarrow> scored_post list" where
  "sorted_posts scored = sort_key (\<lambda>x. - total (score x)) scored"

definition top_posts :: "scored_post list \<Rightarrow> int \<Rightarrow> scored_post list" where
  "top_posts scored max_results = py_slice_to max_results (sorted_posts scored)"

text \<open>\<open>sum(1 for p in scored_posts if p["priority"] == tier)\<close>\<close>

definition count_priority :: "priority \<Rightarrow> scored_post list \<Rightarrow> int" where
  "count_priority tier scored = sum_list (map (\<lambda>p. 1) (filter (\<lambda>p. priority p = tier) scored))"

text \<open>
  The dash and the middle dot of the report are written as the bytes of their UTF-8
  encoding, as the file that \<open>save_briefing\<close> writes contains them.
\<close>

definition em_dash :: string where
  "em_dash = [CHR 0xE2, CHR 0x80, CHR 0x94]"

definition middle_dot :: string where
  "middle_dot = [CHR 0xC2, CHR 0xB7]"

definition badge :: "priority \<Rightarrow> string" where
  "badge p = (if p = High then ''HIGH SIGNAL'' else if p = Medium then ''Medium'' else ''Low'')"

text \<open>The lines that one round of the loop over \<open>enumerate(top_posts, 1)\<close> appends.\<close>

definition entry_lines :: "nat \<times> scored_post \<Rightarrow> string list" where
  "entry_lines ip =
     (case ip of (i, post) \<Rightarrow>
        [''### '' @ show_nat i @ ''. @'' @ author_handle post @ '' '' @ em_dash @ '' Score: ''
           @ show_int (total (score post)) @ '' ('' @ badge (priority post) @ '')'',
         [],
         ''**'' @ author_name post @ ''** '' @ middle_dot @ '' '' @ show_int (likes post)
           @ '' likes '' @ middle_dot @ '' '' @ show_int (replies post) @ '' replies ''
           @ middle_dot @ '' '' @ show_int (reposts post) @ '' reposts'',
         [],
         ''> '' @ post_text post,
         [],
         ''**Matched query:** `'' @ matched_query post @ ''`'',
         ''**Link:** '' @ url post,
         [],
         ''<details><summary>Score breakdown</summary>'',
         [],
         ''| Dimension | Score |'',
         ''|-----------|-------|'',
         ''| ICP Match | '' @ show_int (icp_match (score post)) @ '' |'',
         ''| Topic Relevance | '' @ show_int (topic_relevance (score post)) @ '' |'',
         ''| Reach Potential | '' @ show_int (reach_potential (score post)) @ '' |'',
         ''| Timing | '' @ show_int (timing (score post)) @ '' |'',
         ''| Conversation Stage | '' @ show_int (conversation_stage (score post)) @ '' |'',
         [],
         ''</details>'',
         [],
         ''---'',
         []])"

definition frontmatter_lines :: "datetime \<Rightarrow> run_stats \<Rightarrow> nat \<Rightarrow> int \<Rightarrow> int \<Rightarrow> string list" where
  "frontmatter_lines now stats showing high_count medium_count =
     [''---'',
      ''date: '' @ strftime_date now,
      ''generated: '' @ isoformat now,
      ''posts_scanned: '' @ show_nat (total_fetched stats),
      ''showing: '' @ show_nat showing,
      ''high_priority_total: '' @ show_int high_count,
      ''medium_priority_total: '' @ show_int medium_count,
      ''status: unreviewed'',
      ''---'',
      []]"

definition summary_lines :: "run_stats \<Rightarrow> nat \<Rightarrow> int \<Rightarrow> string list" where
  "summary_lines stats showing high_count =
     [''## Summary'',
      [],
      ''Scanned **'' @ show_nat (total_fetched stats) @ ''** posts across '' @ platforms stats
        @ ''.'',
      ''Showing top **'' @ show_nat showing @ ''** ranked by score.'',
      []]
     @ (if high_count > 0
        then [''**'' @ show_int high_count @ ''** high-signal posts found in this batch.'']
        else [])
     @ [[], ''## Top Opportunities'', []]"

definition statistics_lines :: "run_stats \<Rightarrow> int \<Rightarrow> int \<Rightarrow> int \<Rightarrow> string list" where
  "statistics_lines stats high_count medium_count low_count =
     [''## Run Statistics'',
      [],
      ''| Metric | Value |'',
      ''|--------|-------|'',
      ''| Platforms | '' @ platforms stats @ '' |'',
      ''| Queries run | '' @ show_nat (queries_run stats) @ '' |'',
      ''| Posts scanned | '' @ show_nat (total_fetched stats) @ '' |'',
      ''| High signal (70+) | '' @ show_int high_count @ '' |'',
      ''| Medium signal (50-69) | '' @ show_int medium_count @ '' |'',
      ''| Low signal (<50) | '' @ show_int low_count @ '' |'',
      []]"

text \<open>The list \<open>lines\<close> that \<open>generate_briefing\<close> builds, and the string it returns.\<close>

definition briefing_lines ::
  "datetime \<Rightarrow> scored_post list \<Rightarrow> config \<Rightarrow> run_stats \<Rightarrow> int \<Rightarrow> string list" where
  "briefing_lines now scored cfg stats max_results =
     (let top = top_posts scored max_results;
          high_count = count_priority High scored;
          medium_count = count_priority Medium scored;
          low_count = count_priority Low scored
      in frontmatter_lines now stats (length top) high_count medium_count
         @ summary_lines stats (length top) high_count
         @ concat (map entry_lines (enumerate1 top))
         @ statistics_lines stats high_count medium_count low_count)"

definition generate_briefing ::
  "datetime \<Rightarrow> scored_post list \<Rightarrow> config \<Rightarrow> run_stats \<Rightarrow> int \<Rightarrow> string" where
  "generate_briefing now scored cfg stats max_results =
     join [CHR 0x0A] (briefing_lines now scored cfg stats max_results)"


text \<open>
  \<open>save_briefing\<close>. The file system is a map from paths to contents; \<open>write_text\<close>
  replaces what a path held. \<open>project_root\<close> is \<open>get_project_root()\<close> and \<open>now\<close> the reading of
  the clock inside the function. The result is the path and the file system after the write.
\<close>

type_synonym filesystem = "string \<Rightarrow> string option"

definition briefing_path :: "string \<Rightarrow> datetime \<Rightarrow> string" where
  "briefing_path project_root now =
     project_root @ ''/Daily Review/'' @ strftime_date now @ '' - Daily Briefing ('' @ strftime_hm now
     @ '').md''"

definition save_briefing ::
  "string \<Rightarrow> datetime \<Rightarrow> filesystem \<Rightarrow> string \<Rightarrow> config \<Rightarrow> string \<times> filesystem" where
  "save_briefing project_root now fs content cfg =
     (let filepath = briefing_path project_root now in (filepath, fs(filepath \<mapsto> content)))"

section \<open>The specification's wording\<close>

text \<open>
  Rounding a rational to the nearest integer, a tie going to the even neighbour
  (round-half-to-even).
\<close>

definition round_half_even :: "rat \<Rightarrow> int" where
  "round_half_even x =
     (let f = \<lfloor>x\<rfloor>; r = x - of_int f
      in if r < 1 / 2 then f else if 1 / 2 < r then f + 1 else if even f then f else f + 1)"

text \<open>The weighted sum of the five sub-scores with the weights 0.30, 0.25 and 0.15, exactly.\<close>

definition exact_weighted_sum :: "score_breakdown \<Rightarrow> rat" where
  "exact_weighted_sum s =
     of_int (icp_match s) * (30 / 100) + of_int (topic_relevance s) * (25 / 100)
     + of_int (reach_potential s) * (15 / 100) + of_int (timing s) * (15 / 100)
     + of_int (conversation_stage s) * (15 / 100)"



section \<open>Example inputs\<close>

definition make_post :: "string \<Rightarrow> int \<Rightarrow> post" where
  "make_post text engagement =
     \<lparr> platform = Bluesky, post_id = ''3kabc'', url = ''https://bsky.app/profile/a.example/post/3kabc'',
       author_handle = ''a.example'', author_name = ''A'', post_text = text,
       created_at = ''2025-01-15T09:30:00Z'', likes = engagement, replies = 0, reposts = 0,
       engagement_total = engagement, matched_query = ''decentralized storage'' \<rparr>"

definition empty_post :: post where
  "empty_post = make_post [] 0"

definition storage_post :: post where
  "storage_post =
     make_post ([CHR ''I'', CHR 0x27, CHR ''m'']
                @ '' looking for decentralized storage, tired of big tech'') 12"

section \<open>Auxiliary\<close>

text \<open>The values that the scores other than the topic relevance can take lie in this list.\<close>

definition multiples_of_five :: "int list" where
  "multiples_of_five =
     [5, 10, 15, 20, 25, 30, 35, 40, 45, 50, 55, 60, 65, 70, 75, 80, 85, 90, 95, 100]"

text \<open>The fields of a raw Bluesky post of either shape, and a state with more lines printed.\<close>

fun raw_fields :: "bsky_raw \<Rightarrow> bsky_fields" where
  "raw_fields (PostView f) = f"
| "raw_fields (PostDict f) = f"

definition with_printed :: "'p fetch_state \<Rightarrow> string list \<Rightarrow> 'p fetch_state" where
  "with_printed st ls = st\<lparr> printed := printed st @ ls \<rparr>"

definition with_console :: "listener_state \<Rightarrow> string list \<Rightarrow> listener_state" where
  "with_console st ls = st\<lparr> console := console st @ ls \<rparr>"

section \<open>Example environments\<close>

definition example_config :: config where
  "example_config =
     default_config\<lparr> listener_bluesky_enabled := Some True, bluesky_username := Some ''me.example'',
       bluesky_password := Some ''app-password'', listener_youtube_enabled := Some True,
       youtube_api_key := Some ''key'' \<rparr>"

definition raw_no_uri :: bsky_raw where
  "raw_no_uri =
     PostView \<lparr> f_handle = Some ''alice.example'', f_display_name = Some ''Alice'', f_uri = None,
       f_text = Some ''first post'', f_created_at = Some ''2025-01-15T09:00:00Z'',
       f_like_count = Some 3, f_reply_count = None, f_repost_count = Some 1 \<rparr>"

definition raw_empty_uri :: bsky_raw where
  "raw_empty_uri =
     PostDict \<lparr> f_handle = Some ''bob.example'', f_display_name = None, f_uri = Some [],
       f_text = Some ''another post'', f_created_at = None,
       f_like_count = None, f_reply_count = Some 2, f_repost_count = None \<rparr>"

definition raw_with_uri :: bsky_raw where
  "raw_with_uri =
     PostView \<lparr> f_handle = Some ''carol.example'', f_display_name = Some ''Carol'',
       f_uri = Some ''at://did:plc:abc/app.bsky.feed.post/3kxyz'',
       f_text = Some ''third post'', f_created_at = Some ''2025-01-15T09:05:00Z'',
       f_like_count = Some 7, f_reply_count = Some 1, f_repost_count = Some 2 \<rparr>"

text \<open>Three queries: the second request fails, the first and the third answer.\<close>

definition example_bluesky_env :: bluesky_env where
  "example_bluesky_env =
     \<lparr> atproto_available = True,
       bluesky_queries = [''data sovereignty'', ''self-hosting'', ''big tech''],
       bluesky_login = (\<lambda>username password. None),
       bluesky_search_posts =
         (\<lambda>i query limit lang.
            if i = 1 then Inr [raw_no_uri, raw_with_uri]
            else if i = 2 then Inl ''rate limit exceeded''
            else Inr [raw_empty_uri]) \<rparr>"

definition example_item :: "string \<Rightarrow> yt_item" where
  "example_item vid =
     \<lparr> item_video_id = Some vid, snippet_title = Some ''A talk'', snippet_description = None,
       snippet_channel_title = Some ''Channel'', snippet_channel_id = Some ''UC1'',
       snippet_published_at = Some ''2025-01-10T00:00:00Z'' \<rparr>"

definition example_youtube_env :: youtube_env where
  "example_youtube_env =
     \<lparr> youtube_queries = [''decentralized storage'', ''ipfs'', ''homelab''],
       youtube_search =
         (\<lambda>i query max_results.
            if i = 1 then Inr [example_item ''v1'']
            else if i = 2 then Inl ''403 Client Error''
            else Inr [example_item ''v1'', example_item ''v2'']),
       youtube_videos = (\<lambda>i ids. Inl ''timeout'') \<rparr>"

definition example_tweet :: "string \<Rightarrow> tweet" where
  "example_tweet u = \<lparr> tweet_url = Some u, tweet_like_count = Some 5, tweet_reply_count = Some 1 \<rparr>"

definition example_twitter_env :: twitter_env where
  "example_twitter_env =
     \<lparr> apify_run =
         (\<lambda>i query max_tweets lang.
            if i = 1 then Inr [example_tweet ''https://x.com/a/status/1'']
            else if i = 2 then Inl ''actor run failed''
            else Inr [example_tweet ''https://x.com/b/status/2'']),
       write_signal = (\<lambda>query t. Inr (''signal-'' @ get_or (tweet_url t) [])),
       inbox_urls = {} \<rparr>"

definition example_twitter_config :: twitter_config where
  "example_twitter_config =
     \<lparr> search_queries = Some [''own my data'', ''walled gardens'', ''open web''],
       tweets_per_query = None, min_likes = Some 1, min_replies = None,
       twitter_language = None \<rparr>"




definition morning :: datetime where
  "morning = \<lparr> dt_year = 2025, dt_month = 1, dt_day = 15, dt_hour = 9, dt_minute = 30,
               dt_second = 5, dt_microsecond = 0 \<rparr>"

definition morning_later :: datetime where
  "morning_later = \<lparr> dt_year = 2025, dt_month = 1, dt_day = 15, dt_hour = 9, dt_minute = 30,
                     dt_second = 40, dt_microsecond = 0 \<rparr>"

section \<open>Priority tiers\<close>

text \<open>
  C5. For every configuration of the two thresholds and all totals \<open>a\<close> and \<open>b\<close>: if
  \<open>a \<ge> b\<close> then the tier of \<open>a\<close> is at least the tier of \<open>b\<close> in the ordering
  low < medium < high.
\<close>

theorem get_priority_monotonic:
  assumes "a \<ge> b"
  shows "priority_rank (get_priority a cfg) \<ge> priority_rank (get_priority b cfg)"
  using assms by (simp add: get_priority_def Let_def)

theorem get_priority_monotonic_witness:
  "(72::int) \<ge> 55
   \<and> priority_rank (get_priority 72 default_config) \<ge> priority_rank (get_priority 55 default_config)
   \<and> get_priority 72 default_config = High \<and> get_priority 55 default_config = Medium"
  using get_priority_monotonic [of 55 72 default_config]
  by (simp add: get_priority_def default_config_def)

section \<open>Exactness of the float operations\<close>

lemma dval_shift: "dval (c * 2 ^ K, e) = dval (c, e + int K)"
  by (simp add: dval_def power_int_add)

lemma round_shift_exact: "round_shift (c * 2 ^ K) K = c"
  by (simp add: round_shift_def Let_def)



lemma dval_neg: "dval (m, - int j) = of_int m / 2 ^ j"
  by (simp add: dval_def power_int_minus inverse_eq_divide)

lemma dval_pos: "dval (m, int j) = of_int m * 2 ^ j"
  by (simp add: dval_def)

lemma quarter_mantissa:
  assumes "dval (m, - int (j + 2)) = of_int n / 4"
  shows "m = n * 2 ^ j"
proof -
  have "of_int m / (2 ^ j * 4) = (of_int n / 4 :: rat)"
    using assms unfolding dval_neg by (simp add: power_add)
  then have "(of_int m :: rat) = of_int n * 2 ^ j"
    by (simp add: field_simps)
  then have "(of_int m :: rat) = of_int (n * 2 ^ j)"
    by simp
  then show ?thesis
    by (simp only: of_int_eq_iff)
qed

lemma bitlen_big:
  assumes "0 < k" and "bitlen \<bar>m\<bar> - 53 = k"
  shows "2 ^ (52 + nat k) \<le> \<bar>m\<bar>"
proof -
  have pos: "0 < \<bar>m\<bar>"
    using assms by (cases "m = 0") auto
  have "nat (bitlen \<bar>m\<bar> - 1) = 52 + nat k"
    using assms by simp
  then show ?thesis
    using bitlen_bounds [OF pos] by simp
qed

lemma exp_small:
  assumes big: "2 ^ (52 + K) \<le> \<bar>m\<bar>" and q: "dval (m, e) = of_int n / 4" and n: "\<bar>n\<bar> < 2 ^ 53"
  shows "e + int K \<le> - 2"
proof (rule ccontr)
  assume "\<not> e + int K \<le> - 2"
  then have e: "- 1 - int K \<le> e" by simp
  have "(2::rat) powi (- 1 - int K) \<le> 2 powi e"
    using e by (rule power_int_increasing) simp
  moreover have "(2::rat) powi (- 1 - int K) = 1 / 2 ^ (K + 1)"
    by (simp add: power_int_diff power_int_minus inverse_eq_divide field_simps)
  ultimately have le: "1 / 2 ^ (K + 1) \<le> (2::rat) powi e" by simp
  have "(2::rat) ^ (52 + K) \<le> of_int \<bar>m\<bar>"
    using big by (metis of_int_le_iff of_int_numeral of_int_power)
  then have "(2::rat) ^ (52 + K) * (1 / 2 ^ (K + 1)) \<le> of_int \<bar>m\<bar> * 2 powi e"
    using le by (intro mult_mono) simp_all
  moreover have "(2::rat) ^ (52 + K) * (1 / 2 ^ (K + 1)) = 2 ^ 51"
    by (simp add: power_add)
  moreover have "of_int \<bar>m\<bar> * (2::rat) powi e = \<bar>dval (m, e)\<bar>"
    by (simp add: dval_def abs_mult)
  moreover have "\<bar>dval (m, e)\<bar> = of_int \<bar>n\<bar> / 4"
    using q by simp
  moreover have "(of_int \<bar>n\<bar> :: rat) < 2 ^ 53"
    using n by (metis of_int_less_iff of_int_numeral of_int_power)
  ultimately show False
    by simp
qed


lemma round_to_53_exact:
  assumes q: "dval x = of_int n / 4" and n: "\<bar>n\<bar> < 2 ^ 53"
  shows "dval (round_to_53 x) = dval x"
proof -
  obtain m e where x: "x = (m, e)" by (cases x)
  define k where "k = bitlen \<bar>m\<bar> - 53"
  show ?thesis
  proof (cases "k \<le> 0")
    case True
    then show ?thesis by (simp add: round_to_53_def x k_def)
  next
    case False
    then have kpos: "0 < k" by simp
    define K where "K = nat k"
    have kK: "bitlen \<bar>m\<bar> - 53 = int K" using kpos by (simp add: K_def k_def)
    have Kpos: "0 < K" using kpos by (simp add: K_def)
    have big: "2 ^ (52 + K) \<le> \<bar>m\<bar>"
      using bitlen_big [OF kpos, of m] by (simp add: k_def K_def)
    have small: "e + int K \<le> - 2"
      using exp_small [OF big _ n] q by (simp add: x)
    define j where "j = nat (- e - int K - 2)"
    have e: "e = - int (j + K + 2)"
      using small by (simp add: j_def)
    have "m = n * 2 ^ (j + K)"
      using quarter_mantissa [of m "j + K" n] q by (simp add: x e)
    then have m: "m = (n * 2 ^ j) * 2 ^ K"
      by (simp add: power_add)
    have "round_to_53 x = (round_shift m K, e + int K)"
    proof -
      have "bitlen \<bar>m\<bar> = 53 + int K" using kK by simp
      then show ?thesis using Kpos by (simp add: round_to_53_def x Let_def)
    qed
    moreover have "round_shift m K = n * 2 ^ j"
      unfolding m by (rule round_shift_exact)
    ultimately have "dval (round_to_53 x) = dval (n * 2 ^ j, e + int K)"
      by simp
    also have "\<dots> = dval (m, e)"
      unfolding m by (rule dval_shift [symmetric])
    finally show ?thesis
      by (simp add: x)
  qed
qed

lemma powi_align: "e' \<le> e \<Longrightarrow> (2::rat) ^ nat (e - e') * 2 powi e' = 2 powi e"
proof -
  assume le: "e' \<le> e"
  have "(2::rat) ^ nat (e - e') = 2 powi (e - e')"
    using le by (simp add: power_int_def)
  then show ?thesis
    by (simp add: power_int_add [symmetric])
qed

lemma dval_align:
  "dval (m1 * 2 ^ nat (e1 - min e1 e2) + m2 * 2 ^ nat (e2 - min e1 e2), min e1 e2)
     = dval (m1, e1) + dval (m2, e2)"
proof -
  have "dval (m1 * 2 ^ nat (e1 - min e1 e2) + m2 * 2 ^ nat (e2 - min e1 e2), min e1 e2)
      = of_int m1 * (2 ^ nat (e1 - min e1 e2) * 2 powi min e1 e2)
        + of_int m2 * (2 ^ nat (e2 - min e1 e2) * 2 powi min e1 e2)"
    by (simp add: dval_def algebra_simps)
  also have "\<dots> = of_int m1 * 2 powi e1 + of_int m2 * 2 powi e2"
    by (simp only: powi_align [of "min e1 e2" e1, OF min.cobounded1]
        powi_align [of "min e1 e2" e2, OF min.cobounded2])
  finally show ?thesis
    by (simp add: dval_def)
qed

lemma float_add_exact:
  assumes "dval a = of_int na / 4" and "dval b = of_int nb / 4" and "\<bar>na + nb\<bar> < 2 ^ 53"
  shows "dval (float_add a b) = of_int (na + nb) / 4"
proof -
  obtain m1 e1 where a: "a = (m1, e1)" by (cases a)
  obtain m2 e2 where b: "b = (m2, e2)" by (cases b)
  let ?s = "(m1 * 2 ^ nat (e1 - min e1 e2) + m2 * 2 ^ nat (e2 - min e1 e2), min e1 e2)"
  have s: "dval ?s = of_int (na + nb) / 4"
    using assms(1,2) by (simp add: dval_align a b add_divide_distrib)
  have "float_add a b = round_to_53 ?s"
    by (simp add: float_add_def a b Let_def)
  then show ?thesis
    using round_to_53_exact [OF s assms(3)] s by simp
qed

lemma float_of_int_exact:
  assumes "\<bar>n\<bar> < 2 ^ 51"
  shows "dval (float_of_int n) = of_int n"
proof -
  have "dval (n, 0) = of_int (4 * n) / 4" by (simp add: dval_def)
  moreover have "\<bar>4 * n\<bar> < 2 ^ 53" using assms by simp
  ultimately have "dval (round_to_53 (n, 0)) = dval (n, 0)"
    by (rule round_to_53_exact)
  then show ?thesis by (simp add: float_of_int_def dval_def)
qed


lemma round_shift_rat:
  assumes "0 < k"
  shows "round_shift m k = round_half_even (of_int m / 2 ^ k)"
proof -
  let ?q = "m div 2 ^ k" and ?r = "m mod 2 ^ k"
  have fl: "\<lfloor>(of_int m / 2 ^ k :: rat)\<rfloor> = ?q"
    by (metis floor_divide_of_int_eq of_int_numeral of_int_power)
  have "(of_int (?q * 2 ^ k + ?r) :: rat) = of_int m"
    by (simp only: div_mult_mod_eq)
  then have "(of_int m :: rat) = of_int ?q * 2 ^ k + of_int ?r"
    by (simp only: of_int_add of_int_mult of_int_power of_int_numeral)
  then have "(of_int m / 2 ^ k :: rat) = of_int ?q + of_int ?r / 2 ^ k"
    by (simp add: field_simps)
  then have fr: "(of_int m / 2 ^ k :: rat) - of_int ?q = of_int ?r / 2 ^ k"
    by simp
  have h: "(2::rat) ^ k = 2 * 2 ^ (k - 1)" and hi: "(2::int) ^ k = 2 * 2 ^ (k - 1)"
    using assms by (cases k; simp)+
  have lt: "(of_int ?r / 2 ^ k < (1 / 2 :: rat)) = (?r < 2 ^ (k - 1))"
  proof -
    have "(of_int ?r / 2 ^ k < (1 / 2 :: rat)) = ((of_int ?r :: rat) < 2 ^ (k - 1))"
      unfolding h by (simp add: field_simps)
    also have "\<dots> = (?r < 2 ^ (k - 1))"
      by (metis of_int_less_iff of_int_numeral of_int_power)
    finally show ?thesis .
  qed
  have gt: "((1 / 2 :: rat) < of_int ?r / 2 ^ k) = (2 ^ (k - 1) < ?r)"
  proof -
    have "((1 / 2 :: rat) < of_int ?r / 2 ^ k) = ((2 ^ (k - 1) :: rat) < of_int ?r)"
      unfolding h by (simp add: field_simps)
    also have "\<dots> = (2 ^ (k - 1) < ?r)"
      by (metis of_int_less_iff of_int_numeral of_int_power)
    finally show ?thesis .
  qed
  from assms have k0: "(k = 0) = False" by simp
  show ?thesis
    by (simp only: round_shift_def round_half_even_def Let_def fl fr lt gt k0 if_False)
qed

lemma round_half_even_of_int: "round_half_even (of_int n) = n"
  by (simp add: round_half_even_def)

lemma py_round_dval: "py_round x = round_half_even (dval x)"
proof -
  obtain m e where x: "x = (m, e)" by (cases x)
  show ?thesis
  proof (cases "0 \<le> e")
    case True
    then have d: "dval x = of_int (m * 2 ^ nat e)"
      by (simp add: x dval_def power_int_def)
    have "py_round x = m * 2 ^ nat e"
      using True by (simp add: x py_round_def)
    then show ?thesis
      unfolding d round_half_even_of_int .
  next
    case False
    then have "e = - int (nat (- e))" and "0 < nat (- e)" by simp_all
    then show ?thesis
      using False dval_neg [of m "nat (- e)"] round_shift_rat [of "nat (- e)" m]
      by (simp add: x py_round_def)
  qed
qed

lemma float_mul_exact:
  assumes "dval a * dval b = of_int n / 4" and "\<bar>n\<bar> < 2 ^ 53"
  shows "dval (float_mul a b) = of_int n / 4"
proof -
  obtain m1 e1 where a: "a = (m1, e1)" by (cases a)
  obtain m2 e2 where b: "b = (m2, e2)" by (cases b)
  have p: "dval (m1 * m2, e1 + e2) = of_int n / 4"
    using assms(1) by (simp add: a b dval_def power_int_add algebra_simps)
  have "float_mul a b = round_to_53 (m1 * m2, e1 + e2)"
    by (simp add: float_mul_def a b)
  then show ?thesis
    using round_to_53_exact [OF p assms(2)] p by simp
qed

text \<open>
  Each weight is within half a unit in the last place of its decimal literal, with a
  mantissa of 53 bits: it is the double nearest to the literal.
\<close>

lemma weights_nearest:
  "\<bar>dval weight_icp_match - 30 / 100\<bar> < 1 / 2 ^ 55"
  "\<bar>dval weight_reach_potential - 15 / 100\<bar> < 1 / 2 ^ 56"
  "dval weight_topic_relevance = 25 / 100"
  "weight_timing = weight_reach_potential"
  "weight_conversation_stage = weight_reach_potential"
  "(2 :: int) ^ 52 \<le> 5404319552844595 \<and> (5404319552844595 :: int) < 2 ^ 53"
  by (simp_all add: weight_icp_match_def weight_reach_potential_def weight_topic_relevance_def
      weight_timing_def weight_conversation_stage_def dval_def power_int_minus)

section \<open>The products of the scores with the weights are exact\<close>

lemma icp_products:
  "list_all (\<lambda>i. case float_mul (float_of_int i) weight_icp_match of
                   (m, e) \<Rightarrow> e \<le> 0 \<and> 4 * m = 6 * (i div 5) * 2 ^ nat (- e)) multiples_of_five"
  by code_simp

lemma reach_products:
  "list_all (\<lambda>i. case float_mul (float_of_int i) weight_reach_potential of
                   (m, e) \<Rightarrow> e \<le> 0 \<and> 4 * m = 3 * (i div 5) * 2 ^ nat (- e)) multiples_of_five"
  by code_simp

lemma dval_quarter:
  assumes "e \<le> 0" and "4 * m = n * 2 ^ nat (- e)"
  shows "dval (m, e) = of_int n / 4"
proof -
  define K where "K = nat (- e)"
  have "e = - int K" using assms(1) by (simp add: K_def)
  then have d: "dval (m, e) = of_int m / 2 ^ K"
    using dval_neg [of m K] by simp
  have "(of_int (4 * m) :: rat) = of_int (n * 2 ^ K)"
    using assms(2) by (simp only: K_def)
  then have "(of_int m :: rat) = of_int n * 2 ^ K / 4"
    by simp
  then show ?thesis
    unfolding d by simp
qed

lemma icp_product_exact:
  assumes "i \<in> set multiples_of_five"
  shows "dval (float_mul (float_of_int i) weight_icp_match) = of_int (6 * (i div 5)) / 4"
proof -
  obtain m e where p: "float_mul (float_of_int i) weight_icp_match = (m, e)"
    by (cases "float_mul (float_of_int i) weight_icp_match")
  have "e \<le> 0 \<and> 4 * m = 6 * (i div 5) * 2 ^ nat (- e)"
    using icp_products assms p by (auto simp: list_all_iff)
  then show ?thesis
    unfolding p by (intro dval_quarter) simp_all
qed

lemma reach_product_exact:
  assumes "i \<in> set multiples_of_five"
  shows "dval (float_mul (float_of_int i) weight_reach_potential) = of_int (3 * (i div 5)) / 4"
proof -
  obtain m e where p: "float_mul (float_of_int i) weight_reach_potential = (m, e)"
    by (cases "float_mul (float_of_int i) weight_reach_potential")
  have "e \<le> 0 \<and> 4 * m = 3 * (i div 5) * 2 ^ nat (- e)"
    using reach_products assms p by (auto simp: list_all_iff)
  then show ?thesis
    unfolding p by (intro dval_quarter) simp_all
qed

lemma topic_product_exact:
  assumes "0 \<le> t" and "t \<le> 100"
  shows "dval (float_mul (float_of_int t) weight_topic_relevance) = of_int t / 4"
proof -
  have "\<bar>t\<bar> < 2 ^ 51" using assms by simp
  then have "dval (float_of_int t) = of_int t" by (rule float_of_int_exact)
  then have "dval (float_of_int t) * dval weight_topic_relevance = of_int t / 4"
    by (simp add: weight_topic_relevance_def dval_def power_int_minus)
  moreover have "\<bar>t\<bar> < 2 ^ 53" using assms by simp
  ultimately show ?thesis by (rule float_mul_exact)
qed

lemma multiples_of_five_iff:
  "x \<in> set multiples_of_five \<longleftrightarrow> x mod 5 = 0 \<and> 5 \<le> x \<and> x \<le> 100"
  unfolding multiples_of_five_def by (simp, presburger)

lemma multiples_of_five_bounds:
  assumes "x \<in> set multiples_of_five"
  shows "1 \<le> x div 5" and "x div 5 \<le> 20" and "x = 5 * (x div 5)"
  using assms unfolding multiples_of_five_iff by presburger+

lemma weighted_sum_exact:
  assumes i: "i \<in> set multiples_of_five" and t: "0 \<le> t" "t \<le> 100"
    and r: "r \<in> set multiples_of_five" and tm: "tm \<in> set multiples_of_five"
    and s: "s \<in> set multiples_of_five"
  shows "dval (weighted_sum i t r tm s)
         = of_int (6 * (i div 5) + t + 3 * (r div 5) + 3 * (tm div 5) + 3 * (s div 5)) / 4"
proof -
  note bi = multiples_of_five_bounds(1,2) [OF i]
  note br = multiples_of_five_bounds(1,2) [OF r]
  note bt = multiples_of_five_bounds(1,2) [OF tm]
  note bs = multiples_of_five_bounds(1,2) [OF s]
  let ?a = "float_mul (float_of_int i) weight_icp_match"
  let ?b = "float_mul (float_of_int t) weight_topic_relevance"
  let ?c = "float_mul (float_of_int r) weight_reach_potential"
  let ?d = "float_mul (float_of_int tm) weight_timing"
  let ?e = "float_mul (float_of_int s) weight_conversation_stage"
  have a: "dval ?a = of_int (6 * (i div 5)) / 4" by (rule icp_product_exact [OF i])
  have b: "dval ?b = of_int t / 4" by (rule topic_product_exact [OF t])
  have c: "dval ?c = of_int (3 * (r div 5)) / 4" by (rule reach_product_exact [OF r])
  have d: "dval ?d = of_int (3 * (tm div 5)) / 4"
    unfolding weights_nearest(4) by (rule reach_product_exact [OF tm])
  have e: "dval ?e = of_int (3 * (s div 5)) / 4"
    unfolding weights_nearest(5) by (rule reach_product_exact [OF s])
  have ab: "dval (float_add ?a ?b) = of_int (6 * (i div 5) + t) / 4"
    using bi t by (intro float_add_exact [OF a b]) simp
  have abc: "dval (float_add (float_add ?a ?b) ?c) = of_int (6 * (i div 5) + t + 3 * (r div 5)) / 4"
    using bi t br by (intro float_add_exact [OF ab c]) simp
  have abcd: "dval (float_add (float_add (float_add ?a ?b) ?c) ?d)
              = of_int (6 * (i div 5) + t + 3 * (r div 5) + 3 * (tm div 5)) / 4"
    using bi t br bt by (intro float_add_exact [OF abc d]) simp
  have "dval (float_add (float_add (float_add (float_add ?a ?b) ?c) ?d) ?e)
        = of_int (6 * (i div 5) + t + 3 * (r div 5) + 3 * (tm div 5) + 3 * (s div 5)) / 4"
    using bi t br bt bs by (intro float_add_exact [OF abcd e]) simp
  then show ?thesis
    by (simp only: weighted_sum_def)
qed

section \<open>The ranges of the five dimensions\<close>

lemma count_matches_length:
  "count_matches terms text = int (length (filter (\<lambda>term. str_in term text) terms))"
  unfolding count_matches_def by (induction terms) simp_all

lemma count_matches_nonneg: "0 \<le> count_matches terms text"
  by (simp add: count_matches_length)

lemma icp_arith:
  fixes h q l :: int
  assumes "0 \<le> h" "0 \<le> q" "0 \<le> l"
  shows "(if max 0 (min 100 (h * 20 + q * 25) - l * 30) = 0 then 30
          else max 0 (min 100 (h * 20 + q * 25) - l * 30)) \<in> set multiples_of_five"
proof -
  define s where "s = max 0 (min 100 (h * 20 + q * 25) - l * 30)"
  have "5 dvd min 100 (h * 20 + q * 25)"
    by (simp add: min_def)
  then have "5 dvd min 100 (h * 20 + q * 25) - l * 30"
    by (simp add: dvd_diff)
  then have d: "5 dvd s"
    by (simp add: s_def max_def)
  have b: "0 \<le> s" "s \<le> 100"
    using assms by (simp_all add: s_def)
  have "(if s = 0 then 30 else s) mod 5 = 0 \<and> 5 \<le> (if s = 0 then 30 else s)
        \<and> (if s = 0 then 30 else s) \<le> 100"
    using d b by (cases "s = 0") (simp, presburger)
  then show ?thesis
    unfolding multiples_of_five_iff s_def .
qed

lemma icp_score_five: "icp_score text \<in> set multiples_of_five"
  unfolding icp_score_def Let_def
  by (rule icp_arith) (rule count_matches_nonneg)+

lemma topic_score_range: "15 \<le> topic_score text \<and> topic_score text \<le> 100"
proof -
  define d where "d = count_matches direct_relevance text"
  define a where "a = count_matches adjacent_topics text"
  have "0 \<le> d" "0 \<le> a"
    unfolding d_def a_def by (rule count_matches_nonneg)+
  then have "15 \<le> (if min 100 (d * 30 + a * 15) = 0 then 25 else min 100 (d * 30 + a * 15))
             \<and> (if min 100 (d * 30 + a * 15) = 0 then 25 else min 100 (d * 30 + a * 15)) \<le> 100"
    by (simp add: min_def) presburger
  then show ?thesis
    unfolding topic_score_def Let_def d_def a_def .
qed

lemma reach_score_five: "reach_score engagement \<in> set multiples_of_five"
  by (simp add: reach_score_def multiples_of_five_def)

lemma timing_score_five: "timing_score \<in> set multiples_of_five"
  by (simp add: timing_score_def multiples_of_five_def)

lemma stage_score_five: "stage_score text \<in> set multiples_of_five"
  by (simp add: stage_score_def multiples_of_five_def)

lemma score_post_fields:
  "icp_match (score_post p a b) = icp_score (lower (post_text p))"
  "topic_relevance (score_post p a b) = topic_score (lower (post_text p))"
  "reach_potential (score_post p a b) = reach_score (engagement_total p)"
  "timing (score_post p a b) = timing_score"
  "conversation_stage (score_post p a b) = stage_score (lower (post_text p))"
  "total (score_post p a b)
     = py_round (weighted_sum (icp_score (lower (post_text p))) (topic_score (lower (post_text p)))
         (reach_score (engagement_total p)) timing_score (stage_score (lower (post_text p))))"
  by (simp_all add: score_post_def Let_def)

text \<open>
  The float sum of \<open>score_post\<close> is the exact weighted sum: no operation rounds.
\<close>

lemma score_post_sum_exact:
  "dval (weighted_sum (icp_score text) (topic_score text) (reach_score engagement) timing_score
           (stage_score text))
   = of_int (icp_score text) * (30 / 100) + of_int (topic_score text) * (25 / 100)
     + of_int (reach_score engagement) * (15 / 100) + of_int timing_score * (15 / 100)
     + of_int (stage_score text) * (15 / 100)"
proof -
  let ?i = "icp_score text" and ?t = "topic_score text" and ?r = "reach_score engagement"
  let ?s = "stage_score text"
  have t: "0 \<le> ?t" "?t \<le> 100" using topic_score_range [of "text"] by simp_all
  have "dval (weighted_sum ?i ?t ?r timing_score ?s)
        = of_int (6 * (?i div 5) + ?t + 3 * (?r div 5) + 3 * (timing_score div 5) + 3 * (?s div 5)) / 4"
    by (rule weighted_sum_exact [OF icp_score_five t reach_score_five timing_score_five
          stage_score_five])
  also have "\<dots> = (6 * of_int (?i div 5) + of_int ?t + 3 * of_int (?r div 5)
                    + 3 * of_int (timing_score div 5) + 3 * of_int (?s div 5)) / 4"
    by simp
  also have "\<dots> = of_int (5 * (?i div 5)) * (30 / 100) + of_int ?t * (25 / 100)
                   + of_int (5 * (?r div 5)) * (15 / 100)
                   + of_int (5 * (timing_score div 5)) * (15 / 100)
                   + of_int (5 * (?s div 5)) * (15 / 100)"
    by (simp add: field_simps)
  also have "\<dots> = of_int ?i * (30 / 100) + of_int ?t * (25 / 100) + of_int ?r * (15 / 100)
                   + of_int timing_score * (15 / 100) + of_int ?s * (15 / 100)"
    by (simp only: multiples_of_five_bounds(3) [OF icp_score_five, symmetric]
        multiples_of_five_bounds(3) [OF reach_score_five, symmetric]
        multiples_of_five_bounds(3) [OF timing_score_five, symmetric]
        multiples_of_five_bounds(3) [OF stage_score_five, symmetric])
  finally show ?thesis .
qed

lemma score_post_total_exact:
  "total (score_post p a b) = round_half_even (exact_weighted_sum (score_post p a b))"
  unfolding exact_weighted_sum_def score_post_fields py_round_dval score_post_sum_exact ..

lemma round_half_even_bounds:
  assumes "of_int lo \<le> x" and "x \<le> of_int hi"
  shows "lo \<le> round_half_even x \<and> round_half_even x \<le> hi"
proof -
  have lo: "lo \<le> \<lfloor>x\<rfloor>" using assms(1) by (simp add: le_floor_iff)
  have hi: "\<lfloor>x\<rfloor> \<le> hi" using assms(2) by (simp add: floor_le_iff)
  show ?thesis
  proof (cases "\<lfloor>x\<rfloor> = hi")
    case True
    then have "x = of_int hi"
      using assms(2) by (metis floor_eq_iff le_less order.antisym of_int_floor_le)
    then show ?thesis
      using lo True by (simp add: round_half_even_def)
  next
    case False
    then have "\<lfloor>x\<rfloor> + 1 \<le> hi" using hi by simp
    then show ?thesis
      using lo by (simp add: round_half_even_def Let_def)
  qed
qed

text \<open>\<open>round_half_even\<close> is a nearest integer, and at a tie the even one.\<close>

lemma round_half_even_nearest:
  "\<bar>of_int (round_half_even x) - x\<bar> \<le> 1 / 2"
  "\<bar>of_int (round_half_even x) - x\<bar> = 1 / 2 \<Longrightarrow> even (round_half_even x)"
proof -
  define f where "f = \<lfloor>x\<rfloor>"
  define r where "r = x - of_int f"
  have r: "0 \<le> r" "r < 1"
    unfolding r_def f_def by linarith+
  have v: "round_half_even x
           = (if r < 1 / 2 then f else if 1 / 2 < r then f + 1 else if even f then f else f + 1)"
    by (simp add: round_half_even_def Let_def f_def r_def)
  have d: "of_int f - x = - r" "of_int (f + 1) - x = 1 - r"
    by (simp_all add: r_def)
  show "\<bar>of_int (round_half_even x) - x\<bar> \<le> 1 / 2"
    unfolding v using r by (simp only: d if_distrib [of "\<lambda>y. \<bar>of_int y - x\<bar>"] ) (simp add: abs_if)
  show "even (round_half_even x)" if "\<bar>of_int (round_half_even x) - x\<bar> = 1 / 2"
    using that r unfolding v
    by (simp only: d if_distrib [of "\<lambda>y. \<bar>of_int y - x\<bar>"] if_distrib [of even])
       (simp add: abs_if split: if_splits)
qed

section \<open>Properties of the scorer\<close>

lemma score_post_depends:
  assumes "post_text p = post_text q" and "engagement_total p = engagement_total q"
  shows "score_post p a b = score_post q c d"
  using assms by (simp add: score_post_def)

lemma exact_weighted_sum_range:
  "0 \<le> exact_weighted_sum (score_post p a b) \<and> exact_weighted_sum (score_post p a b) \<le> 100"
proof -
  let ?t = "lower (post_text p)"
  have i: "5 \<le> icp_score ?t" "icp_score ?t \<le> 100"
    using icp_score_five [of ?t] unfolding multiples_of_five_iff by simp_all
  have t: "15 \<le> topic_score ?t" "topic_score ?t \<le> 100"
    using topic_score_range [of ?t] by simp_all
  have r: "5 \<le> reach_score (engagement_total p)" "reach_score (engagement_total p) \<le> 100"
    using reach_score_five [of "engagement_total p"] unfolding multiples_of_five_iff by simp_all
  have s: "5 \<le> stage_score ?t" "stage_score ?t \<le> 100"
    using stage_score_five [of ?t] unfolding multiples_of_five_iff by simp_all
  have ri: "(5::rat) \<le> of_int (icp_score ?t)" "(of_int (icp_score ?t) :: rat) \<le> 100"
    using i by simp_all
  have rt: "(15::rat) \<le> of_int (topic_score ?t)" "(of_int (topic_score ?t) :: rat) \<le> 100"
    using t by simp_all
  have rr: "(5::rat) \<le> of_int (reach_score (engagement_total p))"
    "(of_int (reach_score (engagement_total p)) :: rat) \<le> 100"
    using r by simp_all
  have rs: "(5::rat) \<le> of_int (stage_score ?t)" "(of_int (stage_score ?t) :: rat) \<le> 100"
    using s by simp_all
  show ?thesis
    unfolding exact_weighted_sum_def score_post_fields timing_score_def
    using ri rt rr rs by simp
qed

text \<open>
  C1. For every post, each of the five sub-scores that \<open>score_post\<close> returns is an integer
  between 0 and 100, and so is the total.
\<close>

theorem score_post_in_range:
  "0 \<le> icp_match (score_post p icp_context positioning_context)
   \<and> icp_match (score_post p icp_context positioning_context) \<le> 100
   \<and> 0 \<le> topic_relevance (score_post p icp_context positioning_context)
   \<and> topic_relevance (score_post p icp_context positioning_context) \<le> 100
   \<and> 0 \<le> reach_potential (score_post p icp_context positioning_context)
   \<and> reach_potential (score_post p icp_context positioning_context) \<le> 100
   \<and> 0 \<le> timing (score_post p icp_context positioning_context)
   \<and> timing (score_post p icp_context positioning_context) \<le> 100
   \<and> 0 \<le> conversation_stage (score_post p icp_context positioning_context)
   \<and> conversation_stage (score_post p icp_context positioning_context) \<le> 100
   \<and> 0 \<le> total (score_post p icp_context positioning_context)
   \<and> total (score_post p icp_context positioning_context) \<le> 100"
proof -
  let ?t = "lower (post_text p)"
  have i: "0 \<le> icp_score ?t \<and> icp_score ?t \<le> 100"
    using icp_score_five [of ?t] unfolding multiples_of_five_iff by simp
  have t: "0 \<le> topic_score ?t \<and> topic_score ?t \<le> 100"
    using topic_score_range [of ?t] by simp
  have r: "0 \<le> reach_score (engagement_total p) \<and> reach_score (engagement_total p) \<le> 100"
    using reach_score_five [of "engagement_total p"] unfolding multiples_of_five_iff by simp
  have s: "0 \<le> stage_score ?t \<and> stage_score ?t \<le> 100"
    using stage_score_five [of ?t] unfolding multiples_of_five_iff by simp
  have "of_int 0 \<le> exact_weighted_sum (score_post p icp_context positioning_context)"
    "exact_weighted_sum (score_post p icp_context positioning_context) \<le> of_int 100"
    using exact_weighted_sum_range [of p icp_context positioning_context] by simp_all
  then have "0 \<le> round_half_even (exact_weighted_sum (score_post p icp_context positioning_context))
             \<and> round_half_even (exact_weighted_sum (score_post p icp_context positioning_context)) \<le> 100"
    by (rule round_half_even_bounds)
  then have tot: "0 \<le> total (score_post p icp_context positioning_context)
                  \<and> total (score_post p icp_context positioning_context) \<le> 100"
    by (simp only: score_post_total_exact)
  show ?thesis
    using i t r s tot by (simp add: score_post_fields(1-5) timing_score_def)
qed

theorem score_post_in_range_witness:
  "score_post storage_post [] []
     = \<lparr> total = 65, icp_match = 90, topic_relevance = 30, reach_potential = 40, timing = 80,
         conversation_stage = 85 \<rparr>
   \<and> 0 \<le> total (score_post storage_post [] []) \<and> total (score_post storage_post [] []) \<le> 100
   \<and> 0 \<le> icp_match (score_post storage_post [] [])
   \<and> icp_match (score_post storage_post [] []) \<le> 100"
proof -
  have "score_post storage_post [] []
     = \<lparr> total = 65, icp_match = 90, topic_relevance = 30, reach_potential = 40, timing = 80,
         conversation_stage = 85 \<rparr>"
    by code_simp
  then show ?thesis
    using score_post_in_range [of storage_post "[]" "[]"] by simp
qed

lemma empty_text_scores:
  "icp_score [] = 30" "topic_score [] = 25" "stage_score [] = 50" "reach_score 0 = 10"
  "py_round (weighted_sum 30 25 10 80 50) = 36"
  by code_simp+

text \<open>
  C2. For every post, the total that \<open>score_post\<close> returns is the weighted sum of the five
  sub-scores with the weights 0.30, 0.25, 0.15, 0.15 and 0.15, rounded to the nearest
  integer with ties going to the even neighbour. A post with empty text and no engagement
  scores 30, 25, 10, 80 and 50, its total is 36, and its priority under the default
  thresholds is low.
\<close>

theorem total_is_weighted_sum_rounded_half_even:
  "total (score_post p icp_context positioning_context)
     = round_half_even (exact_weighted_sum (score_post p icp_context positioning_context))
   \<and> (post_text q = [] \<and> engagement_total q = 0 \<longrightarrow>
        score_post q icp_context positioning_context
          = \<lparr> total = 36, icp_match = 30, topic_relevance = 25, reach_potential = 10,
              timing = 80, conversation_stage = 50 \<rparr>
        \<and> get_priority (total (score_post q icp_context positioning_context)) default_config = Low)"
proof -
  have "score_post q icp_context positioning_context
          = \<lparr> total = 36, icp_match = 30, topic_relevance = 25, reach_potential = 10,
              timing = 80, conversation_stage = 50 \<rparr>"
    if "post_text q = []" and "engagement_total q = 0"
    using that by (simp add: score_post_def lower_def empty_text_scores timing_score_def)
  moreover have "get_priority 36 default_config = Low"
    by (simp add: get_priority_def default_config_def)
  ultimately show ?thesis
    using score_post_total_exact [of p icp_context positioning_context] by simp
qed

theorem total_is_weighted_sum_rounded_half_even_witness:
  "post_text empty_post = [] \<and> engagement_total empty_post = 0
   \<and> total (score_post empty_post [] []) = 36
   \<and> exact_weighted_sum (score_post empty_post [] []) = 145 / 4
   \<and> round_half_even (145 / 4) = 36
   \<and> get_priority (total (score_post empty_post [] [])) default_config = Low"
proof -
  have e: "post_text empty_post = [] \<and> engagement_total empty_post = 0"
    by (simp add: empty_post_def make_post_def)
  have "\<lfloor>145 / 4 :: rat\<rfloor> = 36"
    by (rule floor_unique) simp_all
  then have r: "round_half_even (145 / 4) = 36"
    by (simp add: round_half_even_def Let_def)
  from e total_is_weighted_sum_rounded_half_even [of empty_post "[]" "[]" empty_post]
  have s: "score_post empty_post [] []
          = \<lparr> total = 36, icp_match = 30, topic_relevance = 25, reach_potential = 10,
              timing = 80, conversation_stage = 50 \<rparr>"
    and p: "get_priority (total (score_post empty_post [] [])) default_config = Low"
    by (simp_all add: get_priority_def default_config_def)
  have "exact_weighted_sum (score_post empty_post [] []) = 145 / 4"
    unfolding s by (simp add: exact_weighted_sum_def)
  then show ?thesis
    using e r s p by simp
qed






lemma storage_post_score:
  "score_post storage_post [] []
     = \<lparr> total = 65, icp_match = 90, topic_relevance = 30, reach_potential = 40, timing = 80,
         conversation_stage = 85 \<rparr>"
  by code_simp

text \<open>
  C4, as the claim states it, fails: for the post with the text "I'm looking for
  decentralized storage, tired of big tech" and an engagement of 12 the ICP match is not
  100 and the total is not 68.
\<close>

theorem storage_example_counterexample:
  "icp_match (score_post storage_post [] []) \<noteq> 100 \<and> total (score_post storage_post [] []) \<noteq> 68"
  by (simp add: storage_post_score)

text \<open>
  C4, amended. For a post with that text and an engagement of 12, \<open>score_post\<close> returns
  an ICP match of 90 (two high-value terms and two question terms: 40 + 50, below the cap),
  a topic relevance of 30, a reach potential of 40, a timing of 80, a conversation stage of
  85 and the total 65, which the default thresholds 70 and 50 map to the priority medium.
\<close>

theorem storage_example_amended:
  assumes "post_text p = post_text storage_post" and "engagement_total p = 12"
  shows "score_post p icp_context positioning_context
           = \<lparr> total = 65, icp_match = 90, topic_relevance = 30, reach_potential = 40,
               timing = 80, conversation_stage = 85 \<rparr>
         \<and> get_priority (total (score_post p icp_context positioning_context)) default_config
           = Medium"
proof -
  have "engagement_total p = engagement_total storage_post"
    using assms(2) by (simp add: storage_post_def make_post_def)
  then have "score_post p icp_context positioning_context = score_post storage_post [] []"
    using assms(1) by (intro score_post_depends)
  moreover have "get_priority 65 default_config = Medium"
    by (simp add: get_priority_def default_config_def)
  ultimately show ?thesis
    by (simp add: storage_post_score)
qed

theorem storage_example_amended_witness:
  "post_text storage_post = post_text storage_post \<and> engagement_total storage_post = 12
   \<and> total (score_post storage_post ''icp'' ''positioning'') = 65
   \<and> icp_match (score_post storage_post ''icp'' ''positioning'') = 90
   \<and> get_priority (total (score_post storage_post ''icp'' ''positioning'')) default_config
     = Medium"
proof -
  have e: "engagement_total storage_post = 12"
    by (simp add: storage_post_def make_post_def)
  show ?thesis
    using storage_example_amended [OF refl e, of "''icp''" "''positioning''"] e
    by (simp add: get_priority_def default_config_def)
qed



section \<open>Properties of the fetch loops\<close>

subsection \<open>Deduplication in the Bluesky loop\<close>

lemma set_matched_query_id [simp]: "post_id (set_matched_query e query) = post_id e"
  by (simp add: set_matched_query_def)

lemma bluesky_dedup_ids:
  assumes "distinct (map post_id (all_posts st))" and "post_id ` set (all_posts st) \<subseteq> seen_ids st"
  shows "distinct (map post_id (all_posts (bluesky_dedup query st raw)))
         \<and> post_id ` set (all_posts (bluesky_dedup query st raw))
             \<subseteq> seen_ids (bluesky_dedup query st raw)"
  using assms by (auto simp: bluesky_dedup_def Let_def)

lemma bluesky_dedup_fold_ids:
  assumes "distinct (map post_id (all_posts st))" and "post_id ` set (all_posts st) \<subseteq> seen_ids st"
  shows "distinct (map post_id (all_posts (foldl (bluesky_dedup query) st raws)))
         \<and> post_id ` set (all_posts (foldl (bluesky_dedup query) st raws))
             \<subseteq> seen_ids (foldl (bluesky_dedup query) st raws)"
  using assms
proof (induction raws arbitrary: st)
  case Nil
  then show ?case by simp
next
  case (Cons raw raws)
  have "distinct (map post_id (all_posts (bluesky_dedup query st raw)))"
    and "post_id ` set (all_posts (bluesky_dedup query st raw))
           \<subseteq> seen_ids (bluesky_dedup query st raw)"
    using bluesky_dedup_ids [OF Cons.prems] by simp_all
  then show ?case
    using Cons.IH by simp
qed

lemma bluesky_query_ids:
  assumes "distinct (map post_id (all_posts st))" and "post_id ` set (all_posts st) \<subseteq> seen_ids st"
  shows "distinct (map post_id (all_posts (bluesky_query env k lang n st iq)))
         \<and> post_id ` set (all_posts (bluesky_query env k lang n st iq))
             \<subseteq> seen_ids (bluesky_query env k lang n st iq)"
proof -
  obtain i query where iq: "iq = (i, query)" by (cases iq)
  let ?found = "bluesky_search env i query k lang"
  let ?st2 = "st\<lparr> printed := printed st @ [progress_line i n query] @ snd ?found
                     @ [''-> '' @ show_nat (length (fst ?found)) @ '' posts''] \<rparr>"
  have q: "bluesky_query env k lang n st iq = foldl (bluesky_dedup query) ?st2 (fst ?found)"
    by (simp add: bluesky_query_def iq Let_def)
  have "distinct (map post_id (all_posts ?st2))" and "post_id ` set (all_posts ?st2) \<subseteq> seen_ids ?st2"
    using assms by simp_all
  then show ?thesis
    unfolding q by (rule bluesky_dedup_fold_ids)
qed

lemma bluesky_loop_ids:
  assumes "distinct (map post_id (all_posts st))" and "post_id ` set (all_posts st) \<subseteq> seen_ids st"
  shows "distinct (map post_id (all_posts (bluesky_loop env k lang n iqs st)))
         \<and> post_id ` set (all_posts (bluesky_loop env k lang n iqs st))
             \<subseteq> seen_ids (bluesky_loop env k lang n iqs st)"
  using assms unfolding bluesky_loop_def
proof (induction iqs arbitrary: st)
  case Nil
  then show ?case by simp
next
  case (Cons iq iqs)
  have "distinct (map post_id (all_posts (bluesky_query env k lang n st iq)))"
    and "post_id ` set (all_posts (bluesky_query env k lang n st iq))
           \<subseteq> seen_ids (bluesky_query env k lang n st iq)"
    using bluesky_query_ids [OF Cons.prems] by simp_all
  then show ?case
    using Cons.IH by simp
qed

lemma fetch_bluesky_distinct: "distinct (map post_id (fst (fetch_bluesky cfg env)))"
proof -
  have "distinct (map post_id (all_posts (bluesky_loop env k lang n iqs
          \<lparr> all_posts = [], seen_ids = {}, printed = ls \<rparr>)))" for k lang n iqs ls
    using bluesky_loop_ids [of "\<lparr> all_posts = [], seen_ids = {}, printed = ls \<rparr>" env k lang n iqs]
    by simp
  then show ?thesis
    by (simp add: fetch_bluesky_def Let_def)
qed

lemma distinct_at_most_one:
  assumes "distinct (map f xs)"
  shows "length (filter (\<lambda>x. f x = v) xs) \<le> 1"
  using assms
proof (induction xs)
  case Nil
  then show ?case by simp
next
  case (Cons x xs)
  show ?case
  proof (cases "f x = v")
    case True
    have "v \<notin> f ` set xs"
      using Cons.prems True by auto
    then have "filter (\<lambda>y. f y = v) xs = []"
      by (auto simp: filter_empty_conv)
    then show ?thesis
      using True by simp
  next
    case False
    then show ?thesis
      using Cons by simp
  qed
qed

lemma extract_without_uri:
  assumes "f_uri (raw_fields raw) = None \<or> f_uri (raw_fields raw) = Some []"
  shows "post_id (extract_bluesky_post raw) = [] \<and> url (extract_bluesky_post raw) = []"
  using assms by (cases raw) (auto simp: bluesky_post_of_def get_or_def Let_def)

text \<open>
  C10. A Bluesky post whose uri is missing or empty is extracted with the post id "" and
  the url "", and \<open>seen_ids\<close> is keyed on that empty string: the list that
  \<open>fetch_bluesky\<close> returns holds at most one post with an empty post id, whatever the
  queries return.
\<close>

theorem empty_post_id_kept_once:
  "(f_uri (raw_fields raw) = None \<or> f_uri (raw_fields raw) = Some [] \<longrightarrow>
      post_id (extract_bluesky_post raw) = [] \<and> url (extract_bluesky_post raw) = [])
   \<and> length (filter (\<lambda>p. post_id p = []) (fst (fetch_bluesky cfg env))) \<le> 1"
  using extract_without_uri [of raw] distinct_at_most_one [OF fetch_bluesky_distinct, of "[]" cfg env]
  by simp

lemma example_bluesky_fetch:
  "map post_text (fst (fetch_bluesky example_config example_bluesky_env))
     = [''first post'', ''third post'']"
  "map post_id (fst (fetch_bluesky example_config example_bluesky_env)) = [[], ''3kxyz'']"
  by code_simp+

theorem empty_post_id_kept_once_witness:
  "f_uri (raw_fields raw_no_uri) = None
   \<and> post_id (extract_bluesky_post raw_no_uri) = [] \<and> url (extract_bluesky_post raw_no_uri) = []
   \<and> f_uri (raw_fields raw_empty_uri) = Some []
   \<and> post_id (extract_bluesky_post raw_empty_uri) = []
   \<and> post_text (extract_bluesky_post raw_no_uri) \<noteq> post_text (extract_bluesky_post raw_empty_uri)
   \<and> map post_text (fst (fetch_bluesky example_config example_bluesky_env))
       = [''first post'', ''third post'']
   \<and> length (filter (\<lambda>p. post_id p = []) (fst (fetch_bluesky example_config example_bluesky_env)))
       \<le> 1"
proof -
  have a: "f_uri (raw_fields raw_no_uri) = None" and b: "f_uri (raw_fields raw_empty_uri) = Some []"
    by (simp_all add: raw_no_uri_def raw_empty_uri_def)
  have t: "post_text (extract_bluesky_post raw_no_uri) \<noteq> post_text (extract_bluesky_post raw_empty_uri)"
    by (simp add: raw_no_uri_def raw_empty_uri_def bluesky_post_of_def get_or_def Let_def)
  show ?thesis
    using a b t example_bluesky_fetch(1)
      empty_post_id_kept_once [of raw_no_uri example_config example_bluesky_env]
      empty_post_id_kept_once [of raw_empty_uri example_config example_bluesky_env]
    by simp
qed

subsection \<open>A failing query does not end a loop\<close>

lemma show_nat_zero: "show_nat 0 = ''0''"
  by code_simp

lemma youtube_query_failure:
  assumes "youtube_search env i q (min v 50) = Inl e"
  shows "youtube_query env v n st (i, q)
         = with_printed st [progress_line i n q, ''-> ERROR: '' @ e]"
  using assms by (simp add: youtube_query_def with_printed_def Let_def)

lemma bluesky_query_failure:
  assumes "bluesky_search_posts env i q (min k 100) lang = Inl e"
  shows "bluesky_query env k lang n st (i, q)
         = with_printed st
             [progress_line i n q,
              ''  Error searching for '' @ [CHR 0x27] @ q @ [CHR 0x27] @ '': '' @ e,
              ''-> 0 posts'']"
  using assms
  by (simp add: bluesky_query_def bluesky_search_def with_printed_def show_nat_zero Let_def
           del: show_nat.simps)

lemma listener_query_failure:
  assumes "apify_run env i q (get_or (tweets_per_query cfg) 20)
             (get_or (twitter_language cfg) ''en'') = Inl e"
  shows "listener_query env cfg st (i, q)
         = with_console st [''Searching: '' @ q, ''  ERROR: '' @ e]"
  using assms by (simp add: listener_query_def with_console_def Let_def)

lemma youtube_dedup_fold_grows:
  "prefix (all_posts st) (all_posts (foldl (youtube_dedup q stats) st items))"
proof (induction items arbitrary: st)
  case Nil
  show ?case by simp
next
  case (Cons item items)
  have a: "prefix (all_posts st) (all_posts (youtube_dedup q stats st item))"
    by (simp add: youtube_dedup_def Let_def)
  have b: "prefix (all_posts (youtube_dedup q stats st item))
             (all_posts (foldl (youtube_dedup q stats) (youtube_dedup q stats st item) items))"
    by (rule Cons)
  show ?case
    using prefix_order.trans [OF a b] by simp
qed

lemma youtube_query_grows: "prefix (all_posts st) (all_posts (youtube_query env v n st iq))"
proof -
  obtain i q where iq: "iq = (i, q)" by (cases iq)
  show ?thesis
  proof (cases "youtube_search env i q (min v 50)")
    case (Inl e)
    then show ?thesis
      by (simp add: iq youtube_query_failure with_printed_def)
  next
    case (Inr items)
    then show ?thesis
      using youtube_dedup_fold_grows
        [of "st\<lparr> printed := printed st @ [progress_line i n q]
                   @ [''-> '' @ show_nat (length items) @ '' videos''] \<rparr>"]
      by (simp add: iq youtube_query_def Let_def del: show_nat.simps)
  qed
qed

lemma youtube_loop_grows: "prefix (all_posts st) (all_posts (youtube_loop env v n iqs st))"
  unfolding youtube_loop_def
proof (induction iqs arbitrary: st)
  case Nil
  show ?case by simp
next
  case (Cons iq iqs)
  have a: "prefix (all_posts st) (all_posts (youtube_query env v n st iq))"
    by (rule youtube_query_grows)
  have b: "prefix (all_posts (youtube_query env v n st iq))
             (all_posts (foldl (youtube_query env v n) (youtube_query env v n st iq) iqs))"
    by (rule Cons)
  show ?case
    using prefix_order.trans [OF a b] by simp
qed

lemma bluesky_dedup_fold_grows:
  "prefix (all_posts st) (all_posts (foldl (bluesky_dedup q) st raws))"
proof (induction raws arbitrary: st)
  case Nil
  show ?case by simp
next
  case (Cons raw raws)
  have a: "prefix (all_posts st) (all_posts (bluesky_dedup q st raw))"
    by (simp add: bluesky_dedup_def Let_def)
  have b: "prefix (all_posts (bluesky_dedup q st raw))
             (all_posts (foldl (bluesky_dedup q) (bluesky_dedup q st raw) raws))"
    by (rule Cons)
  show ?case
    using prefix_order.trans [OF a b] by simp
qed

lemma bluesky_query_grows: "prefix (all_posts st) (all_posts (bluesky_query env k lang n st iq))"
proof -
  obtain i q where iq: "iq = (i, q)" by (cases iq)
  let ?found = "bluesky_search env i q k lang"
  show ?thesis
    using bluesky_dedup_fold_grows
      [of "st\<lparr> printed := printed st @ [progress_line i n q] @ snd ?found
                 @ [''-> '' @ show_nat (length (fst ?found)) @ '' posts''] \<rparr>" q "fst ?found"]
    by (simp add: iq bluesky_query_def Let_def del: show_nat.simps)
qed

lemma bluesky_loop_grows: "prefix (all_posts st) (all_posts (bluesky_loop env k lang n iqs st))"
  unfolding bluesky_loop_def
proof (induction iqs arbitrary: st)
  case Nil
  show ?case by simp
next
  case (Cons iq iqs)
  have a: "prefix (all_posts st) (all_posts (bluesky_query env k lang n st iq))"
    by (rule bluesky_query_grows)
  have b: "prefix (all_posts (bluesky_query env k lang n st iq))
             (all_posts (foldl (bluesky_query env k lang n) (bluesky_query env k lang n st iq) iqs))"
    by (rule Cons)
  show ?case
    using prefix_order.trans [OF a b] by simp
qed

lemma listener_tweets_grows:
  "prefix (saved_files st) (saved_files (fst (listener_tweets env ml mr q ts st)))"
proof (induction ts arbitrary: st)
  case Nil
  show ?case by simp
next
  case (Cons t ts)
  let ?u = "get_or (tweet_url t) []"
  show ?case
  proof (cases "?u \<in> existing_urls st
                \<or> get_or (tweet_like_count t) 0 < ml \<or> get_or (tweet_reply_count t) 0 < mr")
    case True
    then show ?thesis
      using Cons [of st] by (auto simp: Let_def)
  next
    case False
    show ?thesis
    proof (cases "write_signal env q t")
      case (Inl e)
      then show ?thesis
        using False by (simp add: Let_def)
    next
      case (Inr name)
      let ?st' = "st\<lparr> total_new := total_new st + 1, total_saved := total_saved st + 1,
                       existing_urls := insert ?u (existing_urls st),
                       saved_files := saved_files st @ [name],
                       console := console st @ [''  + Saved: '' @ name] \<rparr>"
      have a: "prefix (saved_files st) (saved_files ?st')"
        by simp
      have b: "prefix (saved_files ?st') (saved_files (fst (listener_tweets env ml mr q ts ?st')))"
        by (rule Cons)
      have "prefix (saved_files st) (saved_files (fst (listener_tweets env ml mr q ts ?st')))"
        by (rule prefix_order.trans [OF a b])
      then show ?thesis
        using False Inr by (simp add: Let_def)
    qed
  qed
qed

lemma listener_query_grows: "prefix (saved_files st) (saved_files (listener_query env cfg st iq))"
proof -
  obtain i q where iq: "iq = (i, q)" by (cases iq)
  show ?thesis
  proof (cases "apify_run env i q (get_or (tweets_per_query cfg) 20)
                  (get_or (twitter_language cfg) ''en'')")
    case (Inl e)
    then show ?thesis
      by (simp add: iq listener_query_failure with_console_def)
  next
    case (Inr tweets)
    let ?st2 = "st\<lparr> console := (console st @ [''Searching: '' @ q])
                         @ [''  Found: '' @ show_nat (length tweets) @ '' tweets''],
                       total_found := total_found st + length tweets \<rparr>"
    let ?r = "listener_tweets env (get_or (min_likes cfg) 0) (get_or (min_replies cfg) 0)
                q tweets ?st2"
    have "saved_files (listener_query env cfg st iq) = saved_files (fst ?r)"
      using Inr by (simp add: iq listener_query_def Let_def split: option.split
                         del: show_nat.simps)
    moreover have "prefix (saved_files ?st2) (saved_files (fst ?r))"
      by (rule listener_tweets_grows)
    ultimately show ?thesis
      by (simp del: show_nat.simps)
  qed
qed

lemma listener_loop_grows: "prefix (saved_files st) (saved_files (listener_loop env cfg iqs st))"
  unfolding listener_loop_def
proof (induction iqs arbitrary: st)
  case Nil
  show ?case by simp
next
  case (Cons iq iqs)
  have a: "prefix (saved_files st) (saved_files (listener_query env cfg st iq))"
    by (rule listener_query_grows)
  have b: "prefix (saved_files (listener_query env cfg st iq))
             (saved_files (foldl (listener_query env cfg) (listener_query env cfg st iq) iqs))"
    by (rule Cons)
  show ?case
    using prefix_order.trans [OF a b] by simp
qed

text \<open>
  C8. In each of the three fetchers, when the request of one query raises an exception the
  loop prints the error and goes on: the queries after it are run from the state that the
  queries before it left, with nothing but the printed lines added, and what the earlier
  queries collected is still at the front of the final result.
\<close>

theorem query_failure_does_not_abort:
  "(youtube_search env_y i q (min v 50) = Inl e \<longrightarrow>
      youtube_loop env_y v n (earlier @ (i, q) # later) st_y
        = youtube_loop env_y v n later
            (with_printed (youtube_loop env_y v n earlier st_y)
               [progress_line i n q, ''-> ERROR: '' @ e])
      \<and> prefix (all_posts (youtube_loop env_y v n earlier st_y))
          (all_posts (youtube_loop env_y v n (earlier @ (i, q) # later) st_y)))
   \<and> (bluesky_search_posts env_b i q (min k 100) lang = Inl e \<longrightarrow>
      bluesky_loop env_b k lang n (earlier @ (i, q) # later) st_b
        = bluesky_loop env_b k lang n later
            (with_printed (bluesky_loop env_b k lang n earlier st_b)
               [progress_line i n q,
                ''  Error searching for '' @ [CHR 0x27] @ q @ [CHR 0x27] @ '': '' @ e,
                ''-> 0 posts''])
      \<and> prefix (all_posts (bluesky_loop env_b k lang n earlier st_b))
          (all_posts (bluesky_loop env_b k lang n (earlier @ (i, q) # later) st_b)))
   \<and> (apify_run env_t i q (get_or (tweets_per_query cfg_t) 20)
         (get_or (twitter_language cfg_t) ''en'') = Inl e \<longrightarrow>
      listener_loop env_t cfg_t (earlier @ (i, q) # later) st_t
        = listener_loop env_t cfg_t later
            (with_console (listener_loop env_t cfg_t earlier st_t)
               [''Searching: '' @ q, ''  ERROR: '' @ e])
      \<and> prefix (saved_files (listener_loop env_t cfg_t earlier st_t))
          (saved_files (listener_loop env_t cfg_t (earlier @ (i, q) # later) st_t)))"
proof -
  have y: "youtube_loop env_y v n (earlier @ (i, q) # later) st_y
           = youtube_loop env_y v n ((i, q) # later) (youtube_loop env_y v n earlier st_y)"
    by (simp add: youtube_loop_def)
  have b: "bluesky_loop env_b k lang n (earlier @ (i, q) # later) st_b
           = bluesky_loop env_b k lang n ((i, q) # later) (bluesky_loop env_b k lang n earlier st_b)"
    by (simp add: bluesky_loop_def)
  have t: "listener_loop env_t cfg_t (earlier @ (i, q) # later) st_t
           = listener_loop env_t cfg_t ((i, q) # later) (listener_loop env_t cfg_t earlier st_t)"
    by (simp add: listener_loop_def)
  have "youtube_loop env_y v n ((i, q) # later) s
        = youtube_loop env_y v n later (with_printed s [progress_line i n q, ''-> ERROR: '' @ e])"
    if "youtube_search env_y i q (min v 50) = Inl e" for s
    using youtube_query_failure [OF that] by (simp add: youtube_loop_def)
  moreover have "bluesky_loop env_b k lang n ((i, q) # later) s
        = bluesky_loop env_b k lang n later
            (with_printed s
               [progress_line i n q,
                ''  Error searching for '' @ [CHR 0x27] @ q @ [CHR 0x27] @ '': '' @ e,
                ''-> 0 posts''])"
    if "bluesky_search_posts env_b i q (min k 100) lang = Inl e" for s
    using bluesky_query_failure [OF that] by (simp add: bluesky_loop_def)
  moreover have "listener_loop env_t cfg_t ((i, q) # later) s
        = listener_loop env_t cfg_t later (with_console s [''Searching: '' @ q, ''  ERROR: '' @ e])"
    if "apify_run env_t i q (get_or (tweets_per_query cfg_t) 20)
          (get_or (twitter_language cfg_t) ''en'') = Inl e" for s
    using listener_query_failure [OF that] by (simp add: listener_loop_def)
  moreover have "prefix (all_posts (youtube_loop env_y v n earlier st_y))
          (all_posts (youtube_loop env_y v n (earlier @ (i, q) # later) st_y))"
    unfolding y by (rule youtube_loop_grows)
  moreover have "prefix (all_posts (bluesky_loop env_b k lang n earlier st_b))
          (all_posts (bluesky_loop env_b k lang n (earlier @ (i, q) # later) st_b))"
    unfolding b by (rule bluesky_loop_grows)
  moreover have "prefix (saved_files (listener_loop env_t cfg_t earlier st_t))
          (saved_files (listener_loop env_t cfg_t (earlier @ (i, q) # later) st_t))"
    unfolding t by (rule listener_loop_grows)
  ultimately show ?thesis
    unfolding y b t by blast
qed

lemma example_fetches:
  "map post_id (fst (fetch_youtube example_config example_youtube_env)) = [''v1'', ''v2'']"
  "snd (fetch_youtube example_config example_youtube_env)
     = [''YouTube: 3 queries, 10 videos each'',
        ''  [1/3] decentralized storage'', ''-> 1 videos'',
        ''  [2/3] ipfs'', ''-> ERROR: 403 Client Error'',
        ''  [3/3] homelab'', ''-> 2 videos'']"
  "saved_files (run_listener example_twitter_env example_twitter_config)
     = [''signal-https://x.com/a/status/1'', ''signal-https://x.com/b/status/2'']"
  "total_saved (run_listener example_twitter_env example_twitter_config) = 2"
  by code_simp+

theorem query_failure_does_not_abort_witness:
  "youtube_search example_youtube_env 2 ''ipfs'' (min 10 50) = Inl ''403 Client Error''
   \<and> bluesky_search_posts example_bluesky_env 2 ''self-hosting'' (min 25 100) ''en''
       = Inl ''rate limit exceeded''
   \<and> apify_run example_twitter_env 2 ''walled gardens''
       (get_or (tweets_per_query example_twitter_config) 20)
       (get_or (twitter_language example_twitter_config) ''en'') = Inl ''actor run failed''
   \<and> youtube_loop example_youtube_env 10 3
       ([(1, ''decentralized storage'')] @ (2, ''ipfs'') # [(3, ''homelab'')])
       \<lparr> all_posts = [], seen_ids = {}, printed = [] \<rparr>
     = youtube_loop example_youtube_env 10 3 [(3, ''homelab'')]
         (with_printed
            (youtube_loop example_youtube_env 10 3 [(1, ''decentralized storage'')]
               \<lparr> all_posts = [], seen_ids = {}, printed = [] \<rparr>)
            [progress_line 2 3 ''ipfs'', ''-> ERROR: '' @ ''403 Client Error''])
   \<and> prefix
       (all_posts (bluesky_loop example_bluesky_env 25 ''en'' 3 [(1, ''data sovereignty'')]
          \<lparr> all_posts = [], seen_ids = {}, printed = [] \<rparr>))
       (all_posts (bluesky_loop example_bluesky_env 25 ''en'' 3
          ([(1, ''data sovereignty'')] @ (2, ''self-hosting'') # [(3, ''big tech'')])
          \<lparr> all_posts = [], seen_ids = {}, printed = [] \<rparr>))
   \<and> prefix
       (saved_files (listener_loop example_twitter_env example_twitter_config [(1, ''own my data'')]
          \<lparr> existing_urls = {}, total_found = 0, total_new = 0, total_saved = 0,
            saved_files = [], console = [] \<rparr>))
       (saved_files (listener_loop example_twitter_env example_twitter_config
          ([(1, ''own my data'')] @ (2, ''walled gardens'') # [(3, ''open web'')])
          \<lparr> existing_urls = {}, total_found = 0, total_new = 0, total_saved = 0,
            saved_files = [], console = [] \<rparr>))
   \<and> map post_id (fst (fetch_youtube example_config example_youtube_env)) = [''v1'', ''v2'']
   \<and> saved_files (run_listener example_twitter_env example_twitter_config)
       = [''signal-https://x.com/a/status/1'', ''signal-https://x.com/b/status/2'']"
proof -
  have hy: "youtube_search example_youtube_env 2 ''ipfs'' (min 10 50) = Inl ''403 Client Error''"
    by (simp add: example_youtube_env_def)
  have hb: "bluesky_search_posts example_bluesky_env 2 ''self-hosting'' (min 25 100) ''en''
            = Inl ''rate limit exceeded''"
    by (simp add: example_bluesky_env_def)
  have ht: "apify_run example_twitter_env 2 ''walled gardens''
              (get_or (tweets_per_query example_twitter_config) 20)
              (get_or (twitter_language example_twitter_config) ''en'') = Inl ''actor run failed''"
    by (simp add: example_twitter_env_def)
  note y = query_failure_does_not_abort
    [where earlier = "[(1, ''decentralized storage'')]" and later = "[(3, ''homelab'')]"
      and n = 3 and st_y = "\<lparr> all_posts = [], seen_ids = {}, printed = [] \<rparr>",
     THEN conjunct1, THEN mp, OF hy]
  note b = query_failure_does_not_abort
    [where earlier = "[(1, ''data sovereignty'')]" and later = "[(3, ''big tech'')]"
      and n = 3 and st_b = "\<lparr> all_posts = [], seen_ids = {}, printed = [] \<rparr>",
     THEN conjunct2, THEN conjunct1, THEN mp, OF hb]
  note t = query_failure_does_not_abort
    [where earlier = "[(1, ''own my data'')]" and later = "[(3, ''open web'')]"
      and st_t = "\<lparr> existing_urls = {}, total_found = 0, total_new = 0, total_saved = 0,
                    saved_files = [], console = [] \<rparr>",
     THEN conjunct2, THEN conjunct2, THEN mp, OF ht]
  show ?thesis
    by (intro conjI hy hb ht y [THEN conjunct1] b [THEN conjunct2] t [THEN conjunct2]
          example_fetches(1) example_fetches(3))
qed

section \<open>Properties of the daily briefing\<close>

subsection \<open>The entries and the counts of the report\<close>














subsection \<open>The file of the report\<close>

text \<open>
  C7. The file name that \<open>save_briefing\<close> builds carries the date, the hour and the minute
  of the run and nothing finer. Two runs at different times of the same minute, here
  09:30:05 and 09:30:40 of one day, get the same path, and the second write replaces the
  report of the first.
\<close>

theorem save_briefing_same_minute_overwrites:
  "morning \<noteq> morning_later
   \<and> fst (save_briefing ''/srv/marketing'' morning Map.empty ''first report'' default_config)
       = ''/srv/marketing/Daily Review/2025-Jan-15 - Daily Briefing (0930).md''
   \<and> fst (save_briefing ''/srv/marketing'' morning_later
            (snd (save_briefing ''/srv/marketing'' morning Map.empty ''first report'' default_config))
            ''second report'' default_config)
       = ''/srv/marketing/Daily Review/2025-Jan-15 - Daily Briefing (0930).md''
   \<and> snd (save_briefing ''/srv/marketing'' morning_later
            (snd (save_briefing ''/srv/marketing'' morning Map.empty ''first report'' default_config))
            ''second report'' default_config)
         ''/srv/marketing/Daily Review/2025-Jan-15 - Daily Briefing (0930).md''
       = Some ''second report''"
proof -
  have p: "briefing_path ''/srv/marketing'' morning
           = ''/srv/marketing/Daily Review/2025-Jan-15 - Daily Briefing (0930).md''"
    "briefing_path ''/srv/marketing'' morning_later
           = ''/srv/marketing/Daily Review/2025-Jan-15 - Daily Briefing (0930).md''"
    by code_simp+
  have d: "morning \<noteq> morning_later"
    by (simp add: morning_def morning_later_def)
  show ?thesis
    using d by (simp add: save_briefing_def Let_def p)
qed

end
